theory Spec2Isabelle
  imports
    Complex_Main
    "HOL-Library.AList"
    "HOL-Library.Char_ord"
    "HOL-Library.List_Lexorder"
    "HOL-Library.Product_Lexorder"
begin

section \<open>The job queue (backend/fastapi/job\_queue.py)\<close>

text \<open>
  Python values that occur in job payloads, job results and extracted invoice data. A
  float is the number it stands for (the values below are exact in binary floating point).
  A \<open>Dict[str, Any]\<close> is an association list: Python dictionaries keep insertion order, and assignment to an
  existing key keeps the key's position (\<open>AList.update\<close> does the same).
\<close>

datatype pyval = PyNone | PyBool bool | PyInt int | PyFloat rat | PyStr string
  | PyList "pyval list" | PyDict "(string \<times> pyval) list"

type_synonym pydict = "(string \<times> pyval) list"

text \<open>\<open>d.get(k)\<close> and \<open>d.get(k, default)\<close>.\<close>

definition dict_get :: "pydict \<Rightarrow> string \<Rightarrow> pyval" where
  "dict_get d k = (case map_of d k of None \<Rightarrow> PyNone | Some v \<Rightarrow> v)"

definition dict_get_default :: "pydict \<Rightarrow> string \<Rightarrow> pyval \<Rightarrow> pyval" where
  "dict_get_default d k dflt = (case map_of d k of None \<Rightarrow> dflt | Some v \<Rightarrow> v)"

datatype JobStatus = PENDING | PROCESSING | COMPLETED | FAILED | RETRYING | CANCELLED

datatype JobPriority = LOW | NORMAL | HIGH | CRITICAL

text \<open>
  The dataclass \<open>Job\<close>. The fields \<open>id\<close> and \<open>type\<close> are \<open>job_id\<close> and \<open>job_type\<close> here.
  Timestamps are the strings \<open>datetime.utcnow().isoformat()\<close> returns.
\<close>

record Job =
  job_id :: string
  job_type :: string
  payload :: pydict
  status :: JobStatus
  priority :: JobPriority
  attempts :: int
  max_retries :: int
  error_message :: "string option"
  result :: "pydict option"
  created_at :: string
  started_at :: "string option"
  completed_at :: "string option"

text \<open>
  The in-memory state of \<open>JobQueue\<close>: the dictionary \<open>self.jobs\<close> and the flag
  \<open>self.running\<close>. A \<open>Job\<close> object lives in exactly one place, the dictionary entry
  under its own id (\<open>add_job\<close> is the only writer of the dictionary), so a reference to a
  job object is its key, and a mutation of the object is an update of that entry.
  The calls to the database client only copy the state out: their results are dropped
  and their exceptions are caught and logged, so they are left out of the state.
\<close>

record JobQueue =
  jobs :: "(string \<times> Job) list"
  running :: bool

definition init_queue :: JobQueue where
  "init_queue = \<lparr>jobs = [], running = False\<rparr>"

text \<open>Truthiness of an \<open>Optional[str]\<close> and of an \<open>Optional[dict]\<close>.\<close>

definition truthy_str :: "string option \<Rightarrow> bool" where
  "truthy_str s = (case s of None \<Rightarrow> False | Some t \<Rightarrow> t \<noteq> [])"

definition truthy_dict :: "pydict option \<Rightarrow> bool" where
  "truthy_dict d = (case d of None \<Rightarrow> False | Some t \<Rightarrow> t \<noteq> [])"

text \<open>
  \<open>add_job\<close>. The identifier \<open>str(uuid.uuid4())\<close> and the clock value read by
  \<open>Job.__post_init__\<close> come from outside and are arguments. The method has no
  \<open>raise\<close> and no check of \<open>job_type\<close>; the result is a sum so that "fails" can be
  stated: \<open>Inl\<close> would be an exception message.
\<close>

definition new_job :: "string \<Rightarrow> string \<Rightarrow> pydict \<Rightarrow> JobPriority \<Rightarrow> int \<Rightarrow> string \<Rightarrow> Job" where
  "new_job jid ty pl prio maxr now =
     \<lparr>job_id = jid, job_type = ty, payload = pl, status = PENDING, priority = prio,
      attempts = 0, max_retries = maxr, error_message = None, result = None,
      created_at = now, started_at = None, completed_at = None\<rparr>"

definition add_job ::
  "JobQueue \<Rightarrow> string \<Rightarrow> string \<Rightarrow> string \<Rightarrow> pydict \<Rightarrow> JobPriority \<Rightarrow> int
     \<Rightarrow> string + (string \<times> JobQueue)" where
  "add_job q uuid4 now ty pl prio maxr =
     (let job = new_job uuid4 ty pl prio maxr now
      in Inr (uuid4, q\<lparr>jobs := AList.update uuid4 job (jobs q)\<rparr>))"

text \<open>\<open>get_job\<close>: \<open>self.jobs.get(job_id)\<close>.\<close>

definition get_job :: "JobQueue \<Rightarrow> string \<Rightarrow> Job option" where
  "get_job q jid = map_of (jobs q) jid"

text \<open>
  \<open>update_job_status\<close>; \<open>now\<close> is the clock value the call would read. An unknown id
  changes nothing. The error message and the result are stored only when truthy.
\<close>

definition update_job_status ::
  "JobQueue \<Rightarrow> string \<Rightarrow> JobStatus \<Rightarrow> string option \<Rightarrow> pydict option \<Rightarrow> string \<Rightarrow> JobQueue" where
  "update_job_status q jid st err res now =
     (case map_of (jobs q) jid of
        None \<Rightarrow> q
      | Some job \<Rightarrow>
          let job1 = job\<lparr>status := st\<rparr>;
              job2 = (if truthy_str err then job1\<lparr>error_message := err\<rparr> else job1);
              job3 = (if truthy_dict res then job2\<lparr>result := res\<rparr> else job2);
              job4 = (if st = PROCESSING \<and> \<not> truthy_str (started_at job3)
                        then job3\<lparr>started_at := Some now\<rparr>
                      else if st = COMPLETED \<or> st = FAILED \<or> st = CANCELLED
                        then job3\<lparr>completed_at := Some now\<rparr>
                      else job3)
          in q\<lparr>jobs := AList.update jid job4 (jobs q)\<rparr>)"

text \<open>
  \<open>get_next_job\<close>. \<open>priority_order\<close> is the dictionary of the method; every
  \<open>JobPriority\<close> is a key of it, so the default 999 of \<open>.get\<close> is never taken.
  Python's \<open>sorted\<close> is stable, as \<open>sort_key\<close> is; the key is the pair
  (rank, \<open>created_at\<close>), compared lexicographically, strings by code point.
  The method only reads; it returns the queue it was given.
\<close>

fun priority_order :: "JobPriority \<Rightarrow> nat" where
  "priority_order CRITICAL = 0"
| "priority_order HIGH = 1"
| "priority_order NORMAL = 2"
| "priority_order LOW = 3"

definition job_key :: "Job \<Rightarrow> nat \<times> string" where
  "job_key j = (priority_order (priority j), created_at j)"

definition pending_jobs :: "JobQueue \<Rightarrow> Job list" where
  "pending_jobs q = filter (\<lambda>job. status job = PENDING) (map snd (jobs q))"

definition get_next_job :: "JobQueue \<Rightarrow> Job option \<times> JobQueue" where
  "get_next_job q =
     (if pending_jobs q = [] then (None, q)
      else (case sort_key job_key (pending_jobs q) of
              [] \<Rightarrow> (None, q)
            | j # _ \<Rightarrow> (Some j, q)))"

text \<open>
  The handlers. What a handler does outside the process (database calls, the mailbox)
  is a parameter: \<open>invoice_backend\<close> is \<open>None\<close> when the import of the admin client,
  the token call and the invoice update all return, and the exception's message
  otherwise; \<open>email_backend\<close> gives the number of attachments \<open>process_inbox\<close> returned
  for a limit, or the exception's message.
\<close>

datatype 'a outcome = Returned 'a | Raised string

record handler_env =
  invoice_backend :: "pyval \<Rightarrow> pyval \<Rightarrow> string option"
  email_backend :: "pyval \<Rightarrow> string + int"

definition process_invoice_job :: "handler_env \<Rightarrow> pydict \<Rightarrow> pydict outcome" where
  "process_invoice_job env pl =
     (let invoice_id = dict_get pl ''invoice_id''; user_id = dict_get pl ''user_id''
      in case invoice_backend env user_id invoice_id of
           Some msg \<Rightarrow> Raised msg
         | None \<Rightarrow> Returned [(''invoice_id'', invoice_id), (''status'', PyStr ''completed'')])"

definition process_email_ingestion_job :: "handler_env \<Rightarrow> pydict \<Rightarrow> pydict outcome" where
  "process_email_ingestion_job env pl =
     (case email_backend env (dict_get_default pl ''limit'' (PyInt 50)) of
        Inl msg \<Rightarrow> Raised msg
      | Inr n \<Rightarrow> Returned [(''attachments_processed'', PyInt n)])"

definition process_report_job :: "pydict \<Rightarrow> pydict outcome" where
  "process_report_job pl = Returned [(''report_generated'', PyBool True)]"

definition process_export_job :: "pydict \<Rightarrow> pydict outcome" where
  "process_export_job pl = Returned [(''export_completed'', PyBool True)]"

text \<open>The \<open>if\<close>/\<open>elif\<close> chain at the head of the \<open>try\<close> block of \<open>process_job\<close>.\<close>

definition route_job :: "handler_env \<Rightarrow> string \<Rightarrow> pydict \<Rightarrow> pydict outcome" where
  "route_job env ty pl =
     (if ty = ''process_invoice'' then process_invoice_job env pl
      else if ty = ''email_ingestion'' then process_email_ingestion_job env pl
      else if ty = ''generate_report'' then process_report_job pl
      else if ty = ''export_data'' then process_export_job pl
      else Raised (''Unknown job type: '' @ ty))"

definition handler_types :: "string list" where
  "handler_types = [''process_invoice'', ''email_ingestion'', ''generate_report'', ''export_data'']"

text \<open>
  \<open>process_job\<close>, on the job object stored under \<open>jid\<close>. \<open>t1\<close> and \<open>t2\<close> are the clock
  values of the first and of the later calls of \<open>update_job_status\<close>. The back-off
  sleep between \<open>RETRYING\<close> and \<open>PENDING\<close> changes no state. The result is the
  returned flag and the queue afterwards.
\<close>

definition process_job :: "handler_env \<Rightarrow> string \<Rightarrow> string \<Rightarrow> JobQueue \<Rightarrow> string \<Rightarrow> bool \<times> JobQueue" where
  "process_job env t1 t2 q jid =
     (case map_of (jobs q) jid of
        None \<Rightarrow> (False, q)
      | Some job \<Rightarrow>
          let n = attempts job + 1;
              q1 = q\<lparr>jobs := AList.update jid (job\<lparr>attempts := n\<rparr>) (jobs q)\<rparr>;
              q2 = update_job_status q1 jid PROCESSING None None t1
          in (case route_job env (job_type job) (payload job) of
                Returned res \<Rightarrow> (True, update_job_status q2 jid COMPLETED None (Some res) t2)
              | Raised error_msg \<Rightarrow>
                  if n < max_retries job then
                    (let q3 = update_job_status q2 jid RETRYING (Some error_msg) None t2
                     in (False, update_job_status q3 jid PENDING None None t2))
                  else (False, update_job_status q2 jid FAILED (Some error_msg) None t2)))"

text \<open>
  One round of the loop of \<open>start_worker\<close>: ask for the next job and process it; with
  no pending job the round only sleeps.
\<close>

definition worker_round :: "handler_env \<Rightarrow> string \<Rightarrow> string \<Rightarrow> JobQueue \<Rightarrow> JobQueue" where
  "worker_round env t1 t2 q =
     (case fst (get_next_job q) of
        None \<Rightarrow> q
      | Some job \<Rightarrow> snd (process_job env t1 t2 (snd (get_next_job q)) (job_id job)))"

text \<open>
  The states the queue can be in: it starts empty, callers add jobs, and the worker
  loop processes the job \<open>get_next_job\<close> hands out, whatever the handlers do.
\<close>

inductive reachable :: "JobQueue \<Rightarrow> bool" where
  reach_init: "reachable init_queue"
| reach_add: "reachable q \<Longrightarrow> add_job q uuid4 now ty pl prio maxr = Inr (jid, q') \<Longrightarrow> reachable q'"
| reach_work: "reachable q \<Longrightarrow> reachable (worker_round env t1 t2 q)"

section \<open>The invoice processor (backend/fastapi/invoice\_processor.py)\<close>

subsection \<open>Strings\<close>

text \<open>
  Strings are lists of 8-bit characters, read as the code points 0 to 255 of a Python
  \<open>str\<close>. \<open>is_space\<close> is \<open>str.isspace\<close> on these code points, which is also the class
  \<open>\s\<close> of \<open>re\<close>; \<open>strip\<close> is \<open>str.strip()\<close>, \<open>lstrip_slash\<close> is \<open>s.lstrip('/')\<close>,
  \<open>lower\<close> is \<open>str.lower()\<close>, \<open>replace_comma\<close> is \<open>s.replace(',', '')\<close>.
\<close>

definition newline :: string where
  "newline = [CHR 0x0A]"

definition is_space :: "char \<Rightarrow> bool" where
  "is_space c = (of_char c \<in> set [9, 10, 11, 12, 13, 28, 29, 30, 31, 32, 133, 160 :: nat])"

definition strip :: "string \<Rightarrow> string" where
  "strip s = rev (dropWhile is_space (rev (dropWhile is_space s)))"

definition lstrip_slash :: "string \<Rightarrow> string" where
  "lstrip_slash s = dropWhile (\<lambda>c. c = CHR ''/'') s"

definition lower_char :: "char \<Rightarrow> char" where
  "lower_char c =
     (let n = (of_char c :: nat)
      in if (65 \<le> n \<and> n \<le> 90) \<or> (192 \<le> n \<and> n \<le> 222 \<and> n \<noteq> 215) then char_of (n + 32) else c)"

definition lower :: "string \<Rightarrow> string" where
  "lower s = map lower_char s"

definition startswith :: "string \<Rightarrow> string \<Rightarrow> bool" where
  "startswith s p = (take (length p) s = p)"

definition replace_comma :: "string \<Rightarrow> string" where
  "replace_comma s = filter (\<lambda>c. c \<noteq> CHR '','') s"

text \<open>
  The three backquotes that open a Markdown code block, and \<open>s.split(fence)\<close>.
\<close>

definition fence :: string where
  "fence = [CHR 0x60, CHR 0x60, CHR 0x60]"

fun split_fence_acc :: "string \<Rightarrow> string \<Rightarrow> string list" where
  "split_fence_acc acc (a # b # c # cs) =
     (if [a, b, c] = fence then acc # split_fence_acc [] cs
      else split_fence_acc (acc @ [a]) (b # c # cs))"
| "split_fence_acc acc cs = [acc @ cs]"

definition split_fence :: "string \<Rightarrow> string list" where
  "split_fence s = split_fence_acc [] s"

subsection \<open>Regular expressions\<close>

text \<open>
  The nine patterns of \<open>_extract_with_regex\<close> are sequences of character classes
  with a greedy quantifier each, and one group at the end. An \<open>Item cls lo hi\<close> matches
  between \<open>lo\<close> and \<open>hi\<close> characters of the class \<open>cls\<close> (no upper bound when \<open>hi\<close> is
  \<open>None\<close>). \<open>match_items\<close> matches a sequence at the start of a string as the
  backtracking matcher of \<open>re\<close> does: each item first takes as many characters as it can,
  and gives them back one by one while the rest fails. It returns the piece each item
  has matched. \<open>re_search\<close> is \<open>re.search\<close>: the match at the leftmost position.
\<close>

datatype item = Item "char \<Rightarrow> bool" nat "nat option"

fun match_items :: "item list \<Rightarrow> string \<Rightarrow> string list option"
  and try_counts :: "item list \<Rightarrow> string \<Rightarrow> nat list \<Rightarrow> string list option" where
  "match_items [] s = Some []"
| "match_items (Item cls lo hi # rest) s =
     (let run = length (takeWhile cls s);
          most = (case hi of None \<Rightarrow> run | Some h \<Rightarrow> min h run)
      in try_counts rest s (rev [lo ..< Suc most]))"
| "try_counts rest s [] = None"
| "try_counts rest s (k # ks) =
     (case match_items rest (drop k s) of
        Some pieces \<Rightarrow> Some (take k s # pieces)
      | None \<Rightarrow> try_counts rest s ks)"

fun re_search :: "item list \<Rightarrow> string \<Rightarrow> string list option" where
  "re_search p [] = match_items p []"
| "re_search p (c # cs) =
     (case match_items p (c # cs) of Some pieces \<Rightarrow> Some pieces | None \<Rightarrow> re_search p cs)"

text \<open>
  A pattern is the items before the group and the items of the group;
  \<open>search_group1\<close> is \<open>match.group(1)\<close> of \<open>re.search(pattern, text, re.IGNORECASE)\<close>.
\<close>

type_synonym pattern = "item list \<times> item list"

definition search_group1 :: "pattern \<Rightarrow> string \<Rightarrow> string option" where
  "search_group1 p s =
     map_option (\<lambda>pieces. concat (drop (length (fst p)) pieces)) (re_search (fst p @ snd p) s)"

text \<open>
  The character classes of the patterns. Among the code points below 256, \<open>\d\<close> is
  \<open>0-9\<close>, and under \<open>re.IGNORECASE\<close> a letter matches the characters with the same
  lower case and \<open>A-Z\<close> matches the ASCII letters of both cases.
\<close>

definition is_digit :: "char \<Rightarrow> bool" where
  "is_digit c = (48 \<le> (of_char c :: nat) \<and> (of_char c :: nat) \<le> 57)"

definition is_ascii_alpha :: "char \<Rightarrow> bool" where
  "is_ascii_alpha c =
     (let n = (of_char c :: nat) in (65 \<le> n \<and> n \<le> 90) \<or> (97 \<le> n \<and> n \<le> 122))"

definition lit :: "char \<Rightarrow> item" where
  "lit c = Item (\<lambda>x. lower_char x = lower_char c) 1 (Some 1)"

definition lits :: "string \<Rightarrow> item list" where
  "lits s = map lit s"

definition opt :: "(char \<Rightarrow> bool) \<Rightarrow> item" where
  "opt cls = Item cls 0 (Some 1)"

definition star :: "(char \<Rightarrow> bool) \<Rightarrow> item" where
  "star cls = Item cls 0 None"

definition plus :: "(char \<Rightarrow> bool) \<Rightarrow> item" where
  "plus cls = Item cls 1 None"

definition is_char :: "char \<Rightarrow> char \<Rightarrow> bool" where
  "is_char c x = (x = c)"

definition invoice_id_char :: "char \<Rightarrow> bool" where
  "invoice_id_char c = (is_ascii_alpha c \<or> is_digit c \<or> c = CHR ''-'')"

definition date_sep :: "char \<Rightarrow> bool" where
  "date_sep c = (c = CHR ''/'' \<or> c = CHR ''-'')"

definition date_group :: "item list" where
  "date_group = [Item is_digit 1 (Some 2), Item date_sep 1 (Some 1), Item is_digit 1 (Some 2),
                 Item date_sep 1 (Some 1), Item is_digit 2 (Some 4)]"

definition amount_tail :: "item list" where
  "amount_tail = [star is_space, opt (is_char CHR '':''), star is_space, opt (is_char CHR ''$''),
                  star is_space]"

definition amount_group :: "item list" where
  "amount_group = [plus (\<lambda>c. is_digit c \<or> c = CHR '',''), opt (is_char CHR ''.''), star is_digit]"

text \<open>
  The three lists of patterns, in the order of the source.
\<close>

definition invoice_patterns :: "pattern list" where
  "invoice_patterns =
     [(lits ''Invoice'' @ [star is_space, opt (is_char CHR ''#''), star is_space,
         opt (is_char CHR '':''), star is_space], [plus invoice_id_char]),
      (lits ''Invoice'' @ [star is_space] @ lits ''Number'' @ [star is_space,
         opt (is_char CHR '':''), star is_space], [plus invoice_id_char]),
      (lits ''INV'' @ [star (\<lambda>c. c = CHR ''-'' \<or> is_space c)], [plus invoice_id_char])]"

definition date_patterns :: "pattern list" where
  "date_patterns =
     [(lits ''Date'' @ [star is_space, opt (is_char CHR '':''), star is_space], date_group),
      (lits ''Invoice'' @ [star is_space] @ lits ''Date'' @ [star is_space,
         opt (is_char CHR '':''), star is_space], date_group),
      ([], date_group)]"

definition amount_patterns :: "pattern list" where
  "amount_patterns =
     [(lits ''Total'' @ amount_tail, amount_group),
      (lits ''Amount'' @ [star is_space] @ lits ''Due'' @ amount_tail, amount_group),
      (lits ''Grand'' @ [star is_space] @ lits ''Total'' @ amount_tail, amount_group)]"

text \<open>
  The loop \<open>for pattern in patterns: ... if match: ... break\<close>.
\<close>

fun first_match :: "pattern list \<Rightarrow> string \<Rightarrow> string option" where
  "first_match [] s = None"
| "first_match (p # ps) s =
     (case search_group1 p s of Some g \<Rightarrow> Some g | None \<Rightarrow> first_match ps s)"

text \<open>
  \<open>float(amount_str)\<close> on what the amount group can contain once the commas are
  removed: digits, then possibly a point and digits. Without any digit \<open>float\<close> raises
  \<open>ValueError\<close> (\<open>None\<close> here). The value is the decimal number itself.
\<close>

definition digits_value :: "string \<Rightarrow> nat" where
  "digits_value ds = foldl (\<lambda>n c. 10 * n + (of_char c - 48)) 0 ds"

definition py_float :: "string \<Rightarrow> rat option" where
  "py_float s =
     (let ip = takeWhile is_digit s; r = dropWhile is_digit s;
          fp = (case r of [] \<Rightarrow> [] | c # cs \<Rightarrow> cs)
      in if (r = [] \<or> (hd r = CHR ''.'' \<and> list_all is_digit fp)) \<and> (ip \<noteq> [] \<or> fp \<noteq> [])
         then Some (of_nat (digits_value ip) + of_nat (digits_value fp) / 10 ^ length fp)
         else None)"

subsection \<open>The pipeline\<close>

text \<open>
  The exceptions of the processor, by the statement that raises them. \<open>External\<close>
  carries the message of an exception raised by a library call or by a service.
  \<open>error_str\<close> is \<open>str(e)\<close>.
\<close>

datatype proc_error =
    InvoiceNotFound string
  | NoFilePath string
  | DownloadFailed string
  | UnsupportedFileType string
  | NoMeaningfulText
  | IndexError
  | AttributeError string
  | External string

definition error_str :: "proc_error \<Rightarrow> string" where
  "error_str e =
     (case e of
        InvoiceNotFound i \<Rightarrow> ''Invoice '' @ i @ '' not found''
      | NoFilePath i \<Rightarrow> ''Invoice '' @ i @ '' has no file_path''
      | DownloadFailed p \<Rightarrow> ''Failed to download file from storage: '' @ p
      | UnsupportedFileType x \<Rightarrow> ''Unsupported file type: '' @ x
      | NoMeaningfulText \<Rightarrow> ''OCR failed to extract meaningful text from invoice''
      | IndexError \<Rightarrow> ''list index out of range''
      | AttributeError t \<Rightarrow> [CHR 0x27] @ t @ [CHR 0x27] @ '' object has no attribute '' @ [CHR 0x27] @ ''get'' @ [CHR 0x27]
      | External m \<Rightarrow> m)"

text \<open>
  \<open>type(v).__name__\<close>, for the message of the \<open>AttributeError\<close> that
  \<open>structured_data.get\<close> raises when the decoded JSON is not an object.
\<close>

fun type_name :: "pyval \<Rightarrow> string" where
  "type_name PyNone = ''NoneType''"
| "type_name (PyBool b) = ''bool''"
| "type_name (PyInt i) = ''int''"
| "type_name (PyFloat r) = ''float''"
| "type_name (PyStr s) = ''str''"
| "type_name (PyList l) = ''list''"
| "type_name (PyDict d) = ''dict''"

text \<open>
  The calls the processor makes to the outside, in the order it makes them: the trace
  of a run. \<open>RegexFallback\<close> marks an execution of \<open>_extract_with_regex\<close>.
\<close>

datatype 'img event =
    SelectInvoice string
  | Download string
  | ReadPdfText string
  | ConvertFromPath string nat
  | ImageOpen string
  | ImageToString 'img
  | GenerateContent string
  | JsonLoads string
  | RegexFallback string
  | UpdateInvoice string pydict

text \<open>
  The processor with what it depends on: the flag \<open>gemini_enabled\<close> and the outside
  world as functions, each returning \<open>Inl\<close> with a message when the call raises.
  \<open>select_invoice\<close> is the query for the invoice row and returns the \<open>file_path\<close> of
  each row found (\<open>None\<close> when the row has none); \<open>update_invoice\<close> returns the message
  of the exception, if any; \<open>path_suffix\<close> is \<open>Path(file_path).suffix\<close>;
  \<open>pdf_page_texts\<close> is \<open>PdfReader(...).pages\<close> with \<open>extract_text\<close> of each page;
  \<open>convert_from_path\<close> takes the PDF (the temporary file holds \<open>pdf_bytes\<close>) and the
  resolution; \<open>generate_content\<close> returns \<open>response.text\<close>; \<open>json_loads\<close> is
  \<open>json.loads\<close>.
\<close>

record 'img InvoiceProcessor =
  gemini_enabled :: bool
  select_invoice :: "string \<Rightarrow> string + string option list"
  storage_download :: "string \<Rightarrow> string + string"
  update_invoice :: "string \<Rightarrow> pydict \<Rightarrow> string option"
  path_suffix :: "string \<Rightarrow> string"
  pdf_page_texts :: "string \<Rightarrow> string + (string + string) list"
  convert_from_path :: "string \<Rightarrow> nat \<Rightarrow> string + 'img list"
  image_open :: "string \<Rightarrow> string + 'img"
  image_to_string :: "'img \<Rightarrow> string + string"
  generate_content :: "string \<Rightarrow> string + string"
  json_loads :: "string \<Rightarrow> string + pyval"

text \<open>
  \<open>__init__\<close> enables Gemini when the key is set and is not the placeholder.
\<close>

definition init_gemini_enabled :: "string \<Rightarrow> bool" where
  "init_gemini_enabled gemini_api_key =
     (gemini_api_key \<noteq> [] \<and> gemini_api_key \<noteq> ''your-gemini-api-key'')"

text \<open>
  A run is the trace of the calls made and either the exception raised or the value
  returned. \<open>and_then\<close> is sequencing (an exception ends the block), \<open>call\<close> is one call
  to the outside.
\<close>

type_synonym ('img, 'a) run = "'img event list \<times> (proc_error + 'a)"

definition and_then :: "('img, 'a) run \<Rightarrow> ('a \<Rightarrow> ('img, 'b) run) \<Rightarrow> ('img, 'b) run" where
  "and_then m f =
     (case m of
        (ev, Inl e) \<Rightarrow> (ev, Inl e)
      | (ev, Inr x) \<Rightarrow> (case f x of (ev', r) \<Rightarrow> (ev @ ev', r)))"

definition call :: "'img event \<Rightarrow> string + 'a \<Rightarrow> ('img, 'a) run" where
  "call ev r = ([ev], (case r of Inl m \<Rightarrow> Inl (External m) | Inr x \<Rightarrow> Inr x))"

text \<open>
  \<open>_download_file_from_storage\<close>: an empty response raises; the \<open>except\<close> clause logs
  and re-raises.
\<close>

definition download_file_from_storage :: "'img InvoiceProcessor \<Rightarrow> string \<Rightarrow> ('img, string) run" where
  "download_file_from_storage self file_path =
     (let clean_path = lstrip_slash file_path
      in and_then (call (Download clean_path) (storage_download self clean_path))
           (\<lambda>response. if response = [] then ([], Inl (DownloadFailed file_path))
                       else ([], Inr response)))"

text \<open>
  The first half of \<open>_extract_text_from_pdf\<close>: the text of the pages that have some,
  each followed by a newline.
\<close>

fun join_page_texts :: "(string + string) list \<Rightarrow> string \<Rightarrow> string + string" where
  "join_page_texts [] text = Inr text"
| "join_page_texts (Inl m # pages) text = Inl m"
| "join_page_texts (Inr page_text # pages) text =
     join_page_texts pages (if page_text \<noteq> [] then text @ page_text @ newline else text)"

definition read_pdf_text :: "'img InvoiceProcessor \<Rightarrow> string \<Rightarrow> string + string" where
  "read_pdf_text self pdf_bytes =
     (case pdf_page_texts self pdf_bytes of
        Inl m \<Rightarrow> Inl m
      | Inr pages \<Rightarrow> join_page_texts pages [])"

text \<open>
  The loop over the page images: the OCR text of each page, followed by a newline.
\<close>

fun ocr_pages :: "'img InvoiceProcessor \<Rightarrow> 'img list \<Rightarrow> string \<Rightarrow> ('img, string) run" where
  "ocr_pages self [] ocr_text = ([], Inr ocr_text)"
| "ocr_pages self (img # images) ocr_text =
     and_then (call (ImageToString img) (image_to_string self img))
       (\<lambda>page_text. ocr_pages self images (ocr_text @ page_text @ newline))"

text \<open>
  \<open>_extract_text_from_pdf\<close>. The text layer is returned when
  \<open>text and len(text.strip()) > 50\<close>; otherwise the pages are rendered with
  \<open>convert_from_path(tmp_path, dpi=300)\<close> and read by OCR.
\<close>

definition extract_text_from_pdf :: "'img InvoiceProcessor \<Rightarrow> string \<Rightarrow> ('img, string) run" where
  "extract_text_from_pdf self pdf_bytes =
     and_then (call (ReadPdfText pdf_bytes) (read_pdf_text self pdf_bytes))
       (\<lambda>text.
          if text \<noteq> [] \<and> length (strip text) > 50 then ([], Inr text)
          else and_then (call (ConvertFromPath pdf_bytes 300) (convert_from_path self pdf_bytes 300))
                 (\<lambda>images. ocr_pages self images []))"

text \<open>
  \<open>_extract_text_from_image\<close>.
\<close>

definition extract_text_from_image :: "'img InvoiceProcessor \<Rightarrow> string \<Rightarrow> ('img, string) run" where
  "extract_text_from_image self image_bytes =
     and_then (call (ImageOpen image_bytes) (image_open self image_bytes))
       (\<lambda>img. call (ImageToString img) (image_to_string self img))"

text \<open>
  \<open>_extract_text_from_file\<close>: the branch is chosen by the lower-cased suffix of the
  path; any other suffix raises \<open>Unsupported file type\<close>.
\<close>

definition image_extensions :: "string list" where
  "image_extensions = [''.png'', ''.jpg'', ''.jpeg'', ''.tiff'', ''.bmp'']"

definition extract_text_from_file ::
  "'img InvoiceProcessor \<Rightarrow> string \<Rightarrow> string \<Rightarrow> ('img, string) run" where
  "extract_text_from_file self file_bytes file_path =
     (let file_extension = lower (path_suffix self file_path)
      in if file_extension = ''.pdf'' then extract_text_from_pdf self file_bytes
         else if file_extension \<in> set image_extensions then extract_text_from_image self file_bytes
         else ([], Inl (UnsupportedFileType file_extension)))"

text \<open>
  \<open>_extract_with_regex\<close>: the dictionary starts with every field \<open>None\<close> and
  \<open>currency\<close> \<open>'USD'\<close>; each field is set from the first pattern that matches. When
  \<open>float\<close> raises, \<open>total_amount\<close> stays \<open>None\<close>.
\<close>

definition regex_fields :: "string \<Rightarrow> pydict" where
  "regex_fields text =
     (let extracted = [(''vendor_name'', PyNone), (''invoice_number'', PyNone),
                       (''invoice_date'', PyNone), (''total_amount'', PyNone),
                       (''currency'', PyStr ''USD'')];
          extracted1 = (case first_match invoice_patterns text of
                          None \<Rightarrow> extracted
                        | Some g \<Rightarrow> AList.update ''invoice_number'' (PyStr g) extracted);
          extracted2 = (case first_match date_patterns text of
                          None \<Rightarrow> extracted1
                        | Some g \<Rightarrow> AList.update ''invoice_date'' (PyStr g) extracted1)
      in (case first_match amount_patterns text of
            None \<Rightarrow> extracted2
          | Some g \<Rightarrow>
              (case py_float (replace_comma g) of
                 None \<Rightarrow> extracted2
               | Some x \<Rightarrow> AList.update ''total_amount'' (PyFloat x) extracted2)))"

definition extract_with_regex :: "string \<Rightarrow> ('img, pyval) run" where
  "extract_with_regex text = ([RegexFallback text], Inr (PyDict (regex_fields text)))"

text \<open>
  The prompt of \<open>_extract_with_gemini\<close>: the text of the f-string before and after the
  invoice text.
\<close>

definition quoted :: "string \<Rightarrow> string" where
  "quoted s = [CHR 0x22] @ s @ [CHR 0x22]"

definition field_line :: "string \<Rightarrow> string \<Rightarrow> string \<Rightarrow> string \<Rightarrow> string" where
  "field_line indent name description sep = indent @ quoted name @ '': '' @ quoted description @ sep"

definition prompt_head :: string where
  "prompt_head = concat (map (\<lambda>l. l @ newline)
     ['''',
      ''You are an expert invoice data extraction assistant. Extract the following information from this invoice text.'',
      ''Return your response as a valid JSON object with these exact fields (use null for missing values):'',
      '''',
      ''{'',
      field_line ''  '' ''vendor_name'' ''Company or person issuing the invoice'' '','',
      field_line ''  '' ''invoice_number'' ''Invoice number or ID'' '','',
      field_line ''  '' ''invoice_date'' ''Invoice date in YYYY-MM-DD format'' '','',
      field_line ''  '' ''due_date'' ''Payment due date in YYYY-MM-DD format'' '','',
      field_line ''  '' ''total_amount'' ''Total amount as a number (no currency symbols)'' '','',
      field_line ''  '' ''subtotal'' ''Subtotal before tax as a number'' '','',
      field_line ''  '' ''tax_amount'' ''Tax/VAT amount as a number'' '','',
      field_line ''  '' ''vat_amount'' ''VAT amount as a number (same as tax_amount if VAT is mentioned)'' '','',
      field_line ''  '' ''currency'' ''Currency code (USD, EUR, GBP, AED, SAR, etc.)'' '','',
      field_line ''  '' ''customer_name'' ''Customer/buyer name'' '','',
      field_line ''  '' ''customer_address'' ''Customer address'' '','',
      field_line ''  '' ''vendor_address'' ''Vendor/seller address'' '','',
      field_line ''  '' ''payment_terms'' ''Payment terms (e.g., 'Net 30', 'Due on receipt')'' '','',
      field_line ''  '' ''payment_method'' ''Payment method if mentioned'' '','',
      field_line ''  '' ''po_number'' ''Purchase order number if present'' '','',
      field_line ''  '' ''vat_number'' ''VAT registration number'' '','',
      field_line ''  '' ''trn'' ''Tax Registration Number (TRN) for UAE invoices'' '','',
      field_line ''  '' ''notes'' ''Any notes or special instructions'' '','',
      ''  '' @ quoted ''line_items'' @ '': ['',
      ''    {'',
      field_line ''      '' ''description'' ''Item description'' '','',
      field_line ''      '' ''quantity'' ''Quantity as number'' '','',
      field_line ''      '' ''unit_price'' ''Unit price as number'' '','',
      field_line ''      '' ''amount'' ''Line total as number'' [],
      ''    }'',
      ''  ]'',
      ''}'',
      '''',
      ''INVOICE TEXT:''])"

definition prompt_tail :: string where
  "prompt_tail = concat (map (\<lambda>l. l @ newline)
     ['''', '''', ''Return ONLY the JSON object, no other text.''])"

definition prompt_for :: "string \<Rightarrow> string" where
  "prompt_for text = prompt_head @ text @ prompt_tail"

text \<open>
  The removal of the code fence: for a response that starts with a fence, the piece
  between the first and the second fence (\<open>split(fence)[1]\<close>, an \<open>IndexError\<close> if there
  were no such piece), without a leading \<open>json\<close>, stripped.
\<close>

definition strip_code_fence :: "string \<Rightarrow> proc_error + string" where
  "strip_code_fence response_text =
     (if startswith response_text fence then
        (case split_fence response_text of
           a # inner # rest \<Rightarrow>
             Inr (strip (if startswith inner ''json'' then drop 4 inner else inner))
         | _ \<Rightarrow> Inl IndexError)
      else Inr response_text)"

text \<open>
  \<open>_extract_with_gemini\<close>: the \<open>try\<close> block asks the model, strips the response,
  removes the code fence and decodes the JSON; \<open>except Exception\<close> runs
  \<open>_extract_with_regex\<close> on the same text.
\<close>

definition extract_with_gemini :: "'img InvoiceProcessor \<Rightarrow> string \<Rightarrow> ('img, pyval) run" where
  "extract_with_gemini self text =
     (let prompt = prompt_for text;
          attempt =
            and_then (call (GenerateContent prompt) (generate_content self prompt))
              (\<lambda>response. and_then ([], strip_code_fence (strip response))
                 (\<lambda>response_text. call (JsonLoads response_text) (json_loads self response_text)))
      in case attempt of
           (ev, Inr extracted_data) \<Rightarrow> (ev, Inr extracted_data)
         | (ev, Inl e) \<Rightarrow> and_then (ev, Inr ()) (\<lambda>u. extract_with_regex text))"

text \<open>
  \<open>_extract_invoice_data\<close>.
\<close>

definition extract_invoice_data :: "'img InvoiceProcessor \<Rightarrow> string \<Rightarrow> ('img, pyval) run" where
  "extract_invoice_data self text =
     (if gemini_enabled self then extract_with_gemini self text else extract_with_regex text)"

text \<open>
  The dictionary \<open>update_data\<close> of \<open>process_invoice\<close>, in the order of the source,
  without the entries that are \<open>None\<close>. \<open>now\<close> is \<open>datetime.utcnow().isoformat()\<close>.
\<close>

definition update_keys :: "string list" where
  "update_keys = [''vendor_name'', ''invoice_number'', ''invoice_date'', ''due_date'',
     ''total_amount'', ''subtotal'', ''tax_amount'', ''vat_amount'']"

definition update_keys2 :: "string list" where
  "update_keys2 = [''customer_name'', ''customer_address'', ''vendor_address'', ''payment_terms'',
     ''payment_method'', ''po_number'']"

definition update_keys3 :: "string list" where
  "update_keys3 = [''notes'', ''vat_number'', ''trn'']"

definition build_update_data :: "pydict \<Rightarrow> string \<Rightarrow> pydict" where
  "build_update_data structured_data now =
     filter (\<lambda>(k, v). v \<noteq> PyNone)
       ([(''status'', PyStr ''completed''), (''processed_at'', PyStr (now @ ''Z''))]
        @ map (\<lambda>k. (k, dict_get structured_data k)) update_keys
        @ [(''currency'', dict_get_default structured_data ''currency'' (PyStr ''USD''))]
        @ map (\<lambda>k. (k, dict_get structured_data k)) update_keys2
        @ [(''line_items'', dict_get_default structured_data ''line_items'' (PyList []))]
        @ map (\<lambda>k. (k, dict_get structured_data k)) update_keys3)"

text \<open>
  The \<open>try\<close> block of \<open>process_invoice\<close>.
\<close>

definition process_invoice_try ::
  "'img InvoiceProcessor \<Rightarrow> string \<Rightarrow> string \<Rightarrow> string \<Rightarrow> ('img, pydict) run" where
  "process_invoice_try self invoice_id user_id now =
     and_then (call (SelectInvoice invoice_id) (select_invoice self invoice_id))
       (\<lambda>rows. case rows of
           [] \<Rightarrow> ([], Inl (InvoiceNotFound invoice_id))
         | invoice # others \<Rightarrow>
             (case invoice of
                None \<Rightarrow> ([], Inl (NoFilePath invoice_id))
              | Some file_path \<Rightarrow>
                  if file_path = [] then ([], Inl (NoFilePath invoice_id))
                  else
                    and_then (download_file_from_storage self file_path)
                      (\<lambda>file_bytes.
                    and_then (extract_text_from_file self file_bytes file_path)
                      (\<lambda>extracted_text.
                         if extracted_text = [] \<or> length (strip extracted_text) < 10
                         then ([], Inl NoMeaningfulText)
                         else
                    and_then (extract_invoice_data self extracted_text)
                      (\<lambda>structured_data.
                         case structured_data of
                           PyDict d \<Rightarrow>
                             (let update_data = build_update_data d now
                              in case update_invoice self invoice_id update_data of
                                   Some m \<Rightarrow> ([UpdateInvoice invoice_id update_data], Inl (External m))
                                 | None \<Rightarrow>
                                     ([UpdateInvoice invoice_id update_data],
                                      Inr [(''success'', PyBool True),
                                           (''invoice_id'', PyStr invoice_id),
                                           (''extracted_data'', structured_data),
                                           (''text_length'', PyInt (int (length extracted_text)))]))
                         | other \<Rightarrow> ([], Inl (AttributeError (type_name other))))))))"

text \<open>
  \<open>process_invoice\<close>: an exception of the \<open>try\<close> block is written to the row as
  status \<open>failed\<close>, and the method returns a dictionary with \<open>success\<close> \<open>False\<close>.
  \<open>now2\<close> is the clock read in the \<open>except\<close> clause.
\<close>

definition process_invoice ::
  "'img InvoiceProcessor \<Rightarrow> string \<Rightarrow> string \<Rightarrow> string \<Rightarrow> string \<Rightarrow> ('img, pydict) run" where
  "process_invoice self invoice_id user_id now now2 =
     (case process_invoice_try self invoice_id user_id now of
        (ev, Inr res) \<Rightarrow> (ev, Inr res)
      | (ev, Inl e) \<Rightarrow>
          (let failed_data = [(''status'', PyStr ''failed''), (''error_message'', PyStr (error_str e)),
                              (''processed_at'', PyStr (now2 @ ''Z''))]
           in case update_invoice self invoice_id failed_data of
                Some m \<Rightarrow> (ev @ [UpdateInvoice invoice_id failed_data], Inl (External m))
              | None \<Rightarrow>
                  (ev @ [UpdateInvoice invoice_id failed_data],
                   Inr [(''success'', PyBool False), (''invoice_id'', PyStr invoice_id),
                        (''error'', PyStr (error_str e))])))"

section \<open>Notions used in the statements\<close>

subsection \<open>The job queue\<close>

text \<open>
  The net effect of one call of \<open>update_job_status\<close> on the job it finds, and of one
  call of \<open>process_job\<close> on the job it is given (both are proved equal to what the
  methods do, below).
\<close>

definition set_status :: "Job \<Rightarrow> JobStatus \<Rightarrow> string option \<Rightarrow> pydict option \<Rightarrow> string \<Rightarrow> Job" where
  "set_status job st err res now =
     job\<lparr>status := st,
         error_message := (if truthy_str err then err else error_message job),
         result := (if truthy_dict res then res else result job),
         started_at := (if st = PROCESSING \<and> \<not> truthy_str (started_at job) then Some now else started_at job),
         completed_at := (if st = COMPLETED \<or> st = FAILED \<or> st = CANCELLED then Some now else completed_at job)\<rparr>"

definition after_attempt :: "handler_env \<Rightarrow> string \<Rightarrow> string \<Rightarrow> Job \<Rightarrow> Job" where
  "after_attempt env t1 t2 job =
     (let j1 = set_status (job\<lparr>attempts := attempts job + 1\<rparr>) PROCESSING None None t1
      in case route_job env (job_type job) (payload job) of
           Returned res \<Rightarrow> set_status j1 COMPLETED None (Some res) t2
         | Raised m \<Rightarrow>
             if attempts job + 1 < max_retries job
             then set_status (set_status j1 RETRYING (Some m) None t2) PENDING None None t2
             else set_status j1 FAILED (Some m) None t2)"

text \<open>One execution attempt on the job stored under \<open>k\<close>, as a step on queues.\<close>

definition attempt_once :: "handler_env \<Rightarrow> string \<Rightarrow> string \<Rightarrow> string \<Rightarrow> JobQueue \<Rightarrow> JobQueue" where
  "attempt_once env t1 t2 k q = snd (process_job env t1 t2 q k)"

text \<open>
  What holds of every job between two rounds of the worker: it is pending, completed
  or failed, and its attempts counter is bounded by \<open>max_retries\<close> (by 1 when
  \<open>max_retries\<close> is below 1).
\<close>

definition job_ok :: "Job \<Rightarrow> bool" where
  "job_ok j \<longleftrightarrow>
     (status j = PENDING \<or> status j = COMPLETED \<or> status j = FAILED) \<and>
     0 \<le> attempts j \<and>
     (status j = PENDING \<longrightarrow> attempts j = 0 \<or> attempts j < max_retries j) \<and>
     (status j = FAILED \<longrightarrow> attempts j = max 1 (max_retries j)) \<and>
     (status j = COMPLETED \<longrightarrow>
        1 \<le> attempts j \<and> attempts j \<le> max 1 (max_retries j) \<and> truthy_dict (result j))"

definition queue_ok :: "JobQueue \<Rightarrow> bool" where
  "queue_ok q \<longleftrightarrow>
     distinct (map fst (jobs q)) \<and> (\<forall>k j. get_job q k = Some j \<longrightarrow> job_id j = k \<and> job_ok j)"

text \<open>Example collaborators and queues, for the concrete runs below.\<close>

definition env_ok :: handler_env where
  "env_ok = \<lparr>invoice_backend = (\<lambda>user_id invoice_id. None), email_backend = (\<lambda>limit. Inr 0)\<rparr>"

definition env_down :: handler_env where
  "env_down = \<lparr>invoice_backend = (\<lambda>user_id invoice_id. Some ''Supabase admin client not available''),
               email_backend = (\<lambda>limit. Inl ''Email service not configured'')\<rparr>"

definition added :: "JobQueue \<Rightarrow> string \<Rightarrow> string \<Rightarrow> string \<Rightarrow> pydict \<Rightarrow> JobPriority \<Rightarrow> int \<Rightarrow> JobQueue" where
  "added q u now ty pl prio maxr =
     (case add_job q u now ty pl prio maxr of Inl e \<Rightarrow> q | Inr (jid, q') \<Rightarrow> q')"

definition retry_demo :: JobQueue where
  "retry_demo = added init_queue ''job-1'' ''2024-05-01T10:00:00'' ''process_invoice''
                  [(''invoice_id'', PyStr ''inv-7''), (''user_id'', PyStr ''u-1'')] NORMAL 3"

definition two_jobs_demo :: JobQueue where
  "two_jobs_demo =
     added (added init_queue ''job-a'' ''2024-05-01T10:00:00'' ''process_invoice'' [] HIGH 3)
       ''job-b'' ''2024-05-01T10:00:05'' ''process_invoice'' [] CRITICAL 3"

definition flaky_demo :: JobQueue where
  "flaky_demo = worker_round env_ok ''t3'' ''t4'' (worker_round env_down ''t1'' ''t2'' retry_demo)"

definition one_failure_demo :: JobQueue where
  "one_failure_demo = worker_round env_down ''t1'' ''t2'' retry_demo"

subsection \<open>The invoice processor\<close>

text \<open>
  A run that raises nothing but exceptions of the calls it makes.
\<close>

definition external_only :: "('img, 'a) run \<Rightarrow> bool" where
  "external_only r = (case snd r of Inl e \<Rightarrow> (\<exists>m. e = External m) | Inr x \<Rightarrow> True)"

text \<open>
  The events of the structuring step: a request to the model, the decoding of its
  answer, an execution of the regex extraction.
\<close>

definition structuring_event :: "'img event \<Rightarrow> bool" where
  "structuring_event ev =
     (case ev of GenerateContent p \<Rightarrow> True | JsonLoads s \<Rightarrow> True | RegexFallback t \<Rightarrow> True
      | _ \<Rightarrow> False)"

text \<open>
  The text OCR gives for a page image (empty when the call raises).
\<close>

definition ocr_text_of :: "'img InvoiceProcessor \<Rightarrow> 'img \<Rightarrow> string" where
  "ocr_text_of self img = (case image_to_string self img of Inl m \<Rightarrow> [] | Inr t \<Rightarrow> t)"

text \<open>
  The scenario of the specification as a processor: a PDF whose text layer is empty and
  whose only page reads \<open>Invoice #1001 Total: $250.00\<close> by OCR, Gemini disabled. The
  other processors below differ from it in one dependency each.
\<close>

definition demo_processor :: "nat InvoiceProcessor" where
  "demo_processor =
     \<lparr>gemini_enabled = False,
      select_invoice = (\<lambda>i. Inr [Some ''/u-1/scan.pdf'']),
      storage_download = (\<lambda>p. Inr ''%PDF-1.4''),
      update_invoice = (\<lambda>i d. None),
      path_suffix = (\<lambda>p. ''.pdf''),
      pdf_page_texts = (\<lambda>b. Inr [Inr []]),
      convert_from_path = (\<lambda>b dpi. Inr [0]),
      image_open = (\<lambda>b. Inr 0),
      image_to_string = (\<lambda>i. Inr ''Invoice #1001 Total: $250.00''),
      generate_content = (\<lambda>p. Inl ''API key not valid''),
      json_loads = (\<lambda>s. Inl ''Expecting value'')\<rparr>"

text \<open>
  The update written to the invoice row by the \<open>except\<close> clause of \<open>process_invoice\<close>.
\<close>

definition failed_data :: "proc_error \<Rightarrow> string \<Rightarrow> pydict" where
  "failed_data e now2 = [(''status'', PyStr ''failed''), (''error_message'', PyStr (error_str e)),
                              (''processed_at'', PyStr (now2 @ ''Z''))]"

text \<open>
  A text layer of exactly 50 characters.
\<close>

definition text50 :: string where
  "text50 = ''ACME Ltd invoice INV-2024-001, total due: 1,250.00''"

definition text50_processor :: "nat InvoiceProcessor" where
  "text50_processor = demo_processor\<lparr>pdf_page_texts := (\<lambda>b. Inr [Inr text50])\<rparr>"

text \<open>
  A scan on which OCR reads ten characters.
\<close>

definition short_text_processor :: "nat InvoiceProcessor" where
  "short_text_processor = demo_processor\<lparr>image_to_string := (\<lambda>i. Inr ''Total: 5.0'')\<rparr>"

text \<open>
  The text of the scenario and the record expected for it.
\<close>

definition scenario_text :: string where
  "scenario_text = ''Invoice #1001 Total: $250.00''"

definition scenario_fields :: pydict where
  "scenario_fields =
     [(''vendor_name'', PyNone), (''invoice_number'', PyStr ''1001''), (''invoice_date'', PyNone),
      (''total_amount'', PyFloat 250), (''currency'', PyStr ''USD'')]"

text \<open>
  A scan on which OCR reads nothing.
\<close>

definition blank_scan_processor :: "nat InvoiceProcessor" where
  "blank_scan_processor = demo_processor\<lparr>image_to_string := (\<lambda>i. Inr [])\<rparr>"

text \<open>
  An answer of the model inside a code fence, cut off in the middle of the object.
\<close>

definition fenced_response :: string where
  "fenced_response = fence @ ''json'' @ newline @ ''{'' @ quoted ''vendor_name'' @ '': '' @ newline @ fence"

definition broken_json_processor :: "nat InvoiceProcessor" where
  "broken_json_processor =
     demo_processor\<lparr>gemini_enabled := True,
                    generate_content := (\<lambda>p. Inr fenced_response),
                    json_loads := (\<lambda>s. Inl ''Expecting value'')\<rparr>"

text \<open>
  A path whose suffix is none of the supported ones, in upper case.
\<close>

definition docx_processor :: "nat InvoiceProcessor" where
  "docx_processor = demo_processor\<lparr>path_suffix := (\<lambda>p. ''.DOCX'')\<rparr>"

text \<open>
  What \<open>_extract_text_from_pdf\<close> returns for the scan of \<open>short_text_processor\<close>.
\<close>

definition short_ocr_text :: string where
  "short_ocr_text = ''Total: 5.0'' @ newline"

text \<open>
  A text on which the first pattern of a field fails and a later one matches.
\<close>

definition second_text :: string where
  "second_text = ''INV-77 Amount Due: 1,200.50''"

section \<open>The job queue: lemmas\<close>

lemma sort_key_head_min:
  assumes "sort_key f xs = y # ys"
  shows "y \<in> set xs \<and> (\<forall>x \<in> set xs. f y \<le> f x)"
proof -
  have s: "sorted (map f (sort_key f xs))" by simp
  have m: "set (sort_key f xs) = set xs" by simp
  from assms m have "y \<in> set xs" by (metis list.set_intros(1))
  moreover have "\<forall>x \<in> set xs. f y \<le> f x"
  proof
    fix x assume "x \<in> set xs"
    with m assms have "x \<in> set (y # ys)" by simp
    with s assms show "f y \<le> f x" by auto
  qed
  ultimately show ?thesis by simp
qed

lemma sort_key_head_first:
  assumes "sort_key f xs = y # ys"
  shows "filter (\<lambda>x. f x = f y) xs \<noteq> [] \<and> y = hd (filter (\<lambda>x. f x = f y) xs)"
proof -
  have "filter (\<lambda>x. f x = f y) (sort_key f xs) = filter (\<lambda>x. f x = f y) xs"
    by (rule sort_key_stable)
  with assms have "filter (\<lambda>x. f x = f y) xs = y # filter (\<lambda>x. f x = f y) ys" by simp
  then show ?thesis by simp
qed

lemma get_next_job_None_iff:
  "fst (get_next_job q) = None \<longleftrightarrow> pending_jobs q = []"
  by (cases "sort_key job_key (pending_jobs q)")
     (auto simp: get_next_job_def split: list.splits dest: arg_cong[where f=length])

lemma get_next_job_Some:
  assumes "fst (get_next_job q) = Some j"
  shows "sort_key job_key (pending_jobs q) = j # tl (sort_key job_key (pending_jobs q))"
  using assms by (auto simp: get_next_job_def split: if_splits list.splits)

lemma get_next_job_snd: "snd (get_next_job q) = q"
  by (auto simp: get_next_job_def split: list.splits)

lemma job_key_le:
  "job_key a \<le> job_key b \<longleftrightarrow>
     priority_order (priority a) < priority_order (priority b) \<or>
     (priority_order (priority a) = priority_order (priority b) \<and> created_at a \<le> created_at b)"
  by (auto simp: job_key_def less_eq_prod_def)

lemma get_job_update_job_status:
  "get_job (update_job_status q jid st err res now) k =
     (if k = jid then map_option (\<lambda>job. set_status job st err res now) (get_job q jid)
      else get_job q k)"
  by (auto simp: get_job_def update_job_status_def set_status_def Let_def update_conv' split: option.splits)

lemma keys_update_existing:
  "map_of al k = Some v \<Longrightarrow> map fst (AList.update k w al) = map fst al"
  by (auto simp: AList.update_keys dest: map_of_SomeD intro: rev_image_eqI)

lemma keys_update_job_status:
  "map fst (jobs (update_job_status q jid st err res now)) = map fst (jobs q)"
  by (auto simp: update_job_status_def Let_def keys_update_existing split: option.splits)

lemma process_job_absent:
  "get_job q jid = None \<Longrightarrow> process_job env t1 t2 q jid = (False, q)"
  by (simp add: process_job_def get_job_def)

lemma get_job_process_job:
  assumes "get_job q jid = Some job"
  shows "get_job (snd (process_job env t1 t2 q jid)) k =
           (if k = jid then Some (after_attempt env t1 t2 job) else get_job q k)"
proof -
  define q1 where "q1 = q\<lparr>jobs := AList.update jid (job\<lparr>attempts := attempts job + 1\<rparr>) (jobs q)\<rparr>"
  have g1: "get_job q1 k' = (if k' = jid then Some (job\<lparr>attempts := attempts job + 1\<rparr>) else get_job q k')" for k'
    by (simp add: q1_def get_job_def update_conv')
  show ?thesis
    using assms
    by (cases "route_job env (job_type job) (payload job)")
       (simp_all add: process_job_def Let_def get_job_update_job_status g1 after_attempt_def
          q1_def[symmetric] get_job_def[symmetric])
qed

lemma keys_process_job:
  "map fst (jobs (snd (process_job env t1 t2 q jid))) = map fst (jobs q)"
  by (auto simp: process_job_def Let_def keys_update_job_status keys_update_existing
           split: option.splits outcome.splits)

lemma route_job_result_nonempty: "route_job env ty pl = Returned res \<Longrightarrow> res \<noteq> []"
  by (auto simp: route_job_def process_invoice_job_def process_email_ingestion_job_def
        process_report_job_def process_export_job_def Let_def split: if_splits option.splits sum.splits)

lemma route_job_unknown:
  "ty \<notin> set handler_types \<Longrightarrow> route_job env ty pl = Raised (''Unknown job type: '' @ ty)"
  by (simp add: route_job_def handler_types_def)

lemma after_attempt_fields:
  "job_id (after_attempt env t1 t2 job) = job_id job"
  "max_retries (after_attempt env t1 t2 job) = max_retries job"
  "attempts (after_attempt env t1 t2 job) = attempts job + 1"
  "job_type (after_attempt env t1 t2 job) = job_type job"
  "payload (after_attempt env t1 t2 job) = payload job"
  "priority (after_attempt env t1 t2 job) = priority job"
  "created_at (after_attempt env t1 t2 job) = created_at job"
  by (simp_all add: after_attempt_def set_status_def Let_def split: outcome.splits)

lemma after_attempt_status:
  "status (after_attempt env t1 t2 job) =
     (case route_job env (job_type job) (payload job) of
        Returned res \<Rightarrow> COMPLETED
      | Raised m \<Rightarrow> if attempts job + 1 < max_retries job then PENDING else FAILED)"
  by (simp add: after_attempt_def set_status_def Let_def split: outcome.splits)

lemma after_attempt_result:
  "result (after_attempt env t1 t2 job) =
     (case route_job env (job_type job) (payload job) of
        Returned res \<Rightarrow> Some res
      | Raised m \<Rightarrow> result job)"
  by (auto simp add: after_attempt_def set_status_def Let_def truthy_dict_def
       dest: route_job_result_nonempty split: outcome.splits)

lemma after_attempt_error_message:
  "error_message (after_attempt env t1 t2 job) =
     (case route_job env (job_type job) (payload job) of
        Returned res \<Rightarrow> error_message job
      | Raised m \<Rightarrow> if m \<noteq> [] then Some m else error_message job)"
  by (auto simp add: after_attempt_def set_status_def Let_def truthy_str_def split: outcome.splits)

lemma job_ok_after_attempt:
  assumes "job_ok job" and "status job = PENDING"
  shows "job_ok (after_attempt env t1 t2 job)"
proof (cases "route_job env (job_type job) (payload job)")
  case (Returned res)
  then have "res \<noteq> []" by (rule route_job_result_nonempty)
  with Returned assms show ?thesis
    by (auto simp: job_ok_def after_attempt_fields after_attempt_status after_attempt_result truthy_dict_def)
next
  case (Raised m)
  with assms show ?thesis
    by (auto simp: job_ok_def after_attempt_fields after_attempt_status after_attempt_result)
qed

lemma job_ok_new_job: "job_ok (new_job jid ty pl prio maxr now)"
  by (simp add: job_ok_def new_job_def)

lemma queue_ok_init: "queue_ok init_queue"
  by (simp add: queue_ok_def init_queue_def get_job_def)

lemma get_job_add_job:
  "add_job q u now ty pl prio maxr = Inr (jid, q') \<Longrightarrow>
     jid = u \<and> get_job q' k = (if k = u then Some (new_job u ty pl prio maxr now) else get_job q k)"
  by (auto simp: add_job_def Let_def get_job_def update_conv')

lemma queue_ok_add_job:
  assumes "queue_ok q" and "add_job q u now ty pl prio maxr = Inr (jid, q')"
  shows "queue_ok q'"
proof -
  from assms(2) have k: "jobs q' = AList.update u (new_job u ty pl prio maxr now) (jobs q)"
    by (auto simp: add_job_def Let_def)
  from assms(1) have "distinct (map fst (jobs q'))"
    by (simp add: k queue_ok_def distinct_update)
  moreover have "\<forall>k j. get_job q' k = Some j \<longrightarrow> job_id j = k \<and> job_ok j"
    using assms(1) get_job_add_job[OF assms(2)]
    by (auto simp: queue_ok_def job_ok_new_job split: if_splits) (simp add: new_job_def)
  ultimately show ?thesis by (simp add: queue_ok_def)
qed

lemma get_next_job_in_queue:
  assumes "queue_ok q" and "fst (get_next_job q) = Some j"
  shows "get_job q (job_id j) = Some j \<and> status j = PENDING"
proof -
  have "j \<in> set (pending_jobs q)"
    using sort_key_head_min[OF get_next_job_Some[OF assms(2)]] by simp
  then obtain k where kj: "(k, j) \<in> set (jobs q)" and st: "status j = PENDING"
    by (auto simp: pending_jobs_def)
  from assms(1) kj have g: "get_job q k = Some j"
    by (simp add: queue_ok_def get_job_def)
  with assms(1) have "job_id j = k" by (simp add: queue_ok_def)
  with g st show ?thesis by simp
qed

lemma queue_ok_process_job:
  assumes "queue_ok q" and "get_job q jid = Some job" and "status job = PENDING"
  shows "queue_ok (snd (process_job env t1 t2 q jid))"
  using assms
  by (auto simp: queue_ok_def keys_process_job get_job_process_job[OF assms(2)]
        after_attempt_fields job_ok_after_attempt split: if_splits)

lemma queue_ok_worker_round:
  assumes "queue_ok q"
  shows "queue_ok (worker_round env t1 t2 q)"
proof (cases "fst (get_next_job q)")
  case None
  with assms show ?thesis by (simp add: worker_round_def)
next
  case (Some j)
  from get_next_job_in_queue[OF assms Some] queue_ok_process_job[OF assms]
  show ?thesis by (simp add: worker_round_def Some get_next_job_snd)
qed

lemma reachable_queue_ok: "reachable q \<Longrightarrow> queue_ok q"
  by (induction rule: reachable.induct)
     (auto intro: queue_ok_init queue_ok_add_job queue_ok_worker_round)

lemma reachable_added: "reachable q \<Longrightarrow> reachable (added q u now ty pl prio maxr)"
  by (auto simp: added_def add_job_def Let_def intro: reach_add[of q u now ty pl prio maxr u])

lemma failing_run:
  assumes "get_job q k = Some j" and "attempts j = 0" and "status j = PENDING"
    and "route_job env (job_type j) (payload j) = Raised m"
  shows "int n \<le> max 1 (max_retries j) \<Longrightarrow>
           \<exists>j'. get_job ((attempt_once env t1 t2 k ^^ n) q) k = Some j' \<and>
                attempts j' = int n \<and>
                status j' = (if int n < max 1 (max_retries j) then PENDING else FAILED) \<and>
                job_type j' = job_type j \<and> payload j' = payload j \<and>
                max_retries j' = max_retries j"
proof (induction n)
  case 0
  with assms show ?case by simp
next
  case (Suc n)
  then have "int n \<le> max 1 (max_retries j)" by simp
  from Suc.IH[OF this] obtain j' where
    j': "get_job ((attempt_once env t1 t2 k ^^ n) q) k = Some j'" "attempts j' = int n"
        "job_type j' = job_type j" "payload j' = payload j" "max_retries j' = max_retries j"
    by blast
  let ?q = "(attempt_once env t1 t2 k ^^ n) q"
  have "get_job (attempt_once env t1 t2 k ?q) k = Some (after_attempt env t1 t2 j')"
    by (simp add: attempt_once_def get_job_process_job[OF j'(1)])
  moreover have "attempts (after_attempt env t1 t2 j') = int (Suc n)"
    by (simp add: after_attempt_fields j')
  moreover have "status (after_attempt env t1 t2 j')
                   = (if int (Suc n) < max 1 (max_retries j) then PENDING else FAILED)"
    using assms(4) by (auto simp: after_attempt_status j')
  ultimately show ?case by (simp add: after_attempt_fields j')
qed

lemma retry_demo_job:
  "get_job retry_demo ''job-1'' =
     Some (new_job ''job-1'' ''process_invoice''
             [(''invoice_id'', PyStr ''inv-7''), (''user_id'', PyStr ''u-1'')] NORMAL 3
             ''2024-05-01T10:00:00'')"
  by (simp add: retry_demo_def added_def add_job_def Let_def init_queue_def get_job_def)

lemma reachable_retry_demo: "reachable retry_demo"
  unfolding retry_demo_def by (intro reachable_added reach_init)

lemma two_jobs_demo_jobs:
  "map snd (jobs two_jobs_demo) =
     [new_job ''job-a'' ''process_invoice'' [] HIGH 3 ''2024-05-01T10:00:00'',
      new_job ''job-b'' ''process_invoice'' [] CRITICAL 3 ''2024-05-01T10:00:05'']"
  by (simp add: two_jobs_demo_def added_def add_job_def Let_def init_queue_def)

lemma two_jobs_demo_next:
  "fst (get_next_job two_jobs_demo) =
     Some (new_job ''job-b'' ''process_invoice'' [] CRITICAL 3 ''2024-05-01T10:00:05'')"
  by (simp add: get_next_job_def pending_jobs_def two_jobs_demo_jobs new_job_def job_key_def)

lemma reachable_two_jobs_demo: "reachable two_jobs_demo"
  unfolding two_jobs_demo_def by (intro reachable_added reach_init)

lemma update_append_fresh: "k \<notin> fst ` set al \<Longrightarrow> AList.update k v al = al @ [(k, v)]"
  by (induction al) auto

lemma reachable_one_failure_demo: "reachable one_failure_demo"
  unfolding one_failure_demo_def by (intro reach_work reachable_retry_demo)

lemma one_failure_demo_job:
  "get_job one_failure_demo ''job-1'' =
     Some \<lparr>job_id = ''job-1'', job_type = ''process_invoice'',
           payload = [(''invoice_id'', PyStr ''inv-7''), (''user_id'', PyStr ''u-1'')],
           status = PENDING, priority = NORMAL, attempts = 1, max_retries = 3,
           error_message = Some ''Supabase admin client not available'',
           result = None, created_at = ''2024-05-01T10:00:00'',
           started_at = Some ''t1'', completed_at = None\<rparr>"
  by (simp add: one_failure_demo_def retry_demo_def added_def add_job_def new_job_def init_queue_def
        worker_round_def get_next_job_def pending_jobs_def process_job_def update_job_status_def
        route_job_def process_invoice_job_def env_down_def dict_get_def truthy_str_def
        truthy_dict_def Let_def get_job_def)

section \<open>The job queue: claims\<close>

text \<open>
  C1 (as amended). \<open>process_job\<close> retries while \<open>attempts < max_retries\<close>, so
  \<open>max_retries\<close> bounds the attempts, not the retries. In every reachable queue a job's
  attempts counter is at most \<open>max 1 max_retries\<close>, a job whose status is \<open>FAILED\<close>
  has exactly that many attempts, and a fresh job whose handler fails on every attempt
  is pending after each attempt before the \<open>max 1 max_retries\<close>-th and failed after it.
\<close>

theorem failed_after_max_retries_attempts:
  assumes "reachable q" and "get_job q k = Some j"
  shows "attempts j \<le> max 1 (max_retries j) \<and>
         (status j = FAILED \<longrightarrow> attempts j = max 1 (max_retries j)) \<and>
         (\<forall>env m t1 t2 n.
            attempts j = 0 \<and> status j = PENDING \<and>
            route_job env (job_type j) (payload j) = Raised m \<and>
            int n \<le> max 1 (max_retries j) \<longrightarrow>
            (\<exists>j'. get_job ((attempt_once env t1 t2 k ^^ n) q) k = Some j' \<and>
                  attempts j' = int n \<and>
                  status j' = (if int n < max 1 (max_retries j) then PENDING else FAILED)))"
proof -
  from reachable_queue_ok[OF assms(1)] assms(2) have ok: "job_ok j"
    by (simp add: queue_ok_def)
  then have "attempts j \<le> max 1 (max_retries j)"
    by (auto simp: job_ok_def)
  moreover from ok have "status j = FAILED \<longrightarrow> attempts j = max 1 (max_retries j)"
    by (simp add: job_ok_def)
  moreover have "\<forall>env m t1 t2 n.
            attempts j = 0 \<and> status j = PENDING \<and>
            route_job env (job_type j) (payload j) = Raised m \<and>
            int n \<le> max 1 (max_retries j) \<longrightarrow>
            (\<exists>j'. get_job ((attempt_once env t1 t2 k ^^ n) q) k = Some j' \<and>
                  attempts j' = int n \<and>
                  status j' = (if int n < max 1 (max_retries j) then PENDING else FAILED))"
  proof (intro allI impI)
    fix env m t1 t2 n
    assume h: "attempts j = 0 \<and> status j = PENDING \<and>
            route_job env (job_type j) (payload j) = Raised m \<and>
            int n \<le> max 1 (max_retries j)"
    from failing_run[OF assms(2), of env m n t1 t2] h
    show "\<exists>j'. get_job ((attempt_once env t1 t2 k ^^ n) q) k = Some j' \<and>
                  attempts j' = int n \<and>
                  status j' = (if int n < max 1 (max_retries j) then PENDING else FAILED)"
      by blast
  qed
  ultimately show ?thesis by blast
qed

text \<open>
  The theorem at a job with \<open>max_retries = 3\<close> whose handler finds no admin client:
  three attempts, then \<open>FAILED\<close>.
\<close>

theorem failed_after_max_retries_attempts_witness:
  "reachable retry_demo \<and>
   (\<exists>j'. get_job ((attempt_once env_down ''t1'' ''t2'' ''job-1'' ^^ 3) retry_demo) ''job-1'' = Some j' \<and>
         attempts j' = 3 \<and> status j' = FAILED)"
proof -
  have r: "route_job env_down ''process_invoice''
             [(''invoice_id'', PyStr ''inv-7''), (''user_id'', PyStr ''u-1'')]
           = Raised ''Supabase admin client not available''"
    by (simp add: route_job_def process_invoice_job_def env_down_def dict_get_def)
  let ?j = "new_job ''job-1'' ''process_invoice''
             [(''invoice_id'', PyStr ''inv-7''), (''user_id'', PyStr ''u-1'')] NORMAL 3
             ''2024-05-01T10:00:00''"
  have h: "attempts ?j = 0 \<and> status ?j = PENDING \<and>
           route_job env_down (job_type ?j) (payload ?j) = Raised ''Supabase admin client not available'' \<and>
           int 3 \<le> max 1 (max_retries ?j)"
    using r by (simp add: new_job_def)
  from failed_after_max_retries_attempts[OF reachable_retry_demo retry_demo_job]
  have "\<forall>env m t1 t2 n.
            attempts ?j = 0 \<and> status ?j = PENDING \<and>
            route_job env (job_type ?j) (payload ?j) = Raised m \<and>
            int n \<le> max 1 (max_retries ?j) \<longrightarrow>
            (\<exists>j'. get_job ((attempt_once env t1 t2 ''job-1'' ^^ n) retry_demo) ''job-1'' = Some j' \<and>
                  attempts j' = int n \<and>
                  status j' = (if int n < max 1 (max_retries ?j) then PENDING else FAILED))"
    by (rule conjunct2[THEN conjunct2])
  from this[rule_format, OF h]
  have "\<exists>j'. get_job ((attempt_once env_down ''t1'' ''t2'' ''job-1'' ^^ 3) retry_demo) ''job-1'' = Some j' \<and>
         attempts j' = int 3 \<and>
         status j' = (if int 3 < max 1 (max_retries ?j) then PENDING else FAILED)" .
  then show ?thesis using reachable_retry_demo by (simp add: new_job_def)
qed

text \<open>
  Against C1 as stated (\<open>N + 1\<close> attempts): the default \<open>max_retries = 3\<close> and a
  handler that always fails give \<open>FAILED\<close> after three rounds of the worker, with
  \<open>attempts = 3\<close>, not 4.
\<close>

theorem failed_after_three_attempts_counterexample:
  "map (\<lambda>(k, j). (status j, attempts j, max_retries j))
     (jobs (worker_round env_down ''t5'' ''t6'' (worker_round env_down ''t3'' ''t4''
              (worker_round env_down ''t1'' ''t2'' retry_demo))))
   = [(FAILED, 3, 3)]"
  by (simp add: retry_demo_def added_def add_job_def new_job_def init_queue_def worker_round_def
        get_next_job_def pending_jobs_def process_job_def update_job_status_def route_job_def
        process_invoice_job_def env_down_def dict_get_def truthy_str_def truthy_dict_def Let_def)

text \<open>
  C2. \<open>get_next_job\<close> returns nothing exactly when no job is pending. A job it returns
  is a pending job of the queue whose key is least among the pending jobs: its priority
  rank is lower than the other's, or the ranks are equal and its \<open>created_at\<close> is not
  later. Among pending jobs of equal key it is the first in the order of the dictionary,
  which is the order of submission. The ranks order \<open>CRITICAL\<close> before \<open>HIGH\<close> before
  \<open>NORMAL\<close> before \<open>LOW\<close>.
\<close>

theorem get_next_job_priority_then_age:
  "(fst (get_next_job q) = None \<longleftrightarrow> (\<forall>j \<in> set (map snd (jobs q)). status j \<noteq> PENDING)) \<and>
   (\<forall>j. fst (get_next_job q) = Some j \<longrightarrow>
      j \<in> set (map snd (jobs q)) \<and> status j = PENDING \<and>
      (\<forall>j' \<in> set (map snd (jobs q)). status j' = PENDING \<longrightarrow>
         priority_order (priority j) < priority_order (priority j') \<or>
         (priority_order (priority j) = priority_order (priority j') \<and>
          created_at j \<le> created_at j')) \<and>
      j = hd (filter (\<lambda>x. job_key x = job_key j) (pending_jobs q))) \<and>
   priority_order CRITICAL < priority_order HIGH \<and>
   priority_order HIGH < priority_order NORMAL \<and>
   priority_order NORMAL < priority_order LOW"
proof -
  have none: "fst (get_next_job q) = None \<longleftrightarrow> (\<forall>j \<in> set (map snd (jobs q)). status j \<noteq> PENDING)"
    by (auto simp: get_next_job_None_iff pending_jobs_def filter_empty_conv)
  have some: "\<forall>j. fst (get_next_job q) = Some j \<longrightarrow>
      j \<in> set (map snd (jobs q)) \<and> status j = PENDING \<and>
      (\<forall>j' \<in> set (map snd (jobs q)). status j' = PENDING \<longrightarrow>
         priority_order (priority j) < priority_order (priority j') \<or>
         (priority_order (priority j) = priority_order (priority j') \<and>
          created_at j \<le> created_at j')) \<and>
      j = hd (filter (\<lambda>x. job_key x = job_key j) (pending_jobs q))"
  proof (intro allI impI)
    fix j assume j: "fst (get_next_job q) = Some j"
    note s = get_next_job_Some[OF j]
    from sort_key_head_min[OF s] have mem: "j \<in> set (pending_jobs q)"
      and least: "\<forall>x \<in> set (pending_jobs q). job_key j \<le> job_key x" by simp_all
    from sort_key_head_first[OF s] have first: "j = hd (filter (\<lambda>x. job_key x = job_key j) (pending_jobs q))"
      by simp
    from mem have a: "j \<in> set (map snd (jobs q))" and b: "status j = PENDING"
      by (auto simp: pending_jobs_def)
    have c: "\<forall>j' \<in> set (map snd (jobs q)). status j' = PENDING \<longrightarrow>
         priority_order (priority j) < priority_order (priority j') \<or>
         (priority_order (priority j) = priority_order (priority j') \<and>
          created_at j \<le> created_at j')"
    proof (intro ballI impI)
      fix j' assume "j' \<in> set (map snd (jobs q))" and "status j' = PENDING"
      then have "j' \<in> set (pending_jobs q)" by (auto simp: pending_jobs_def)
      with least have "job_key j \<le> job_key j'" by blast
      then show "priority_order (priority j) < priority_order (priority j') \<or>
         (priority_order (priority j) = priority_order (priority j') \<and>
          created_at j \<le> created_at j')"
        by (simp add: job_key_le)
    qed
    from a b c first
    show "j \<in> set (map snd (jobs q)) \<and> status j = PENDING \<and>
      (\<forall>j' \<in> set (map snd (jobs q)). status j' = PENDING \<longrightarrow>
         priority_order (priority j) < priority_order (priority j') \<or>
         (priority_order (priority j) = priority_order (priority j') \<and>
          created_at j \<le> created_at j')) \<and>
      j = hd (filter (\<lambda>x. job_key x = job_key j) (pending_jobs q))"
      by blast
  qed
  from none some show ?thesis by simp
qed

text \<open>
  The scenario of the specification: a \<open>HIGH\<close> job submitted first and a \<open>CRITICAL\<close>
  job submitted after it, both pending; the \<open>CRITICAL\<close> one is returned.
\<close>

theorem get_next_job_priority_then_age_witness:
  "fst (get_next_job two_jobs_demo) =
     Some (new_job ''job-b'' ''process_invoice'' [] CRITICAL 3 ''2024-05-01T10:00:05'') \<and>
   new_job ''job-a'' ''process_invoice'' [] HIGH 3 ''2024-05-01T10:00:00'' \<in> set (map snd (jobs two_jobs_demo)) \<and>
   priority_order (priority (new_job ''job-b'' ''process_invoice'' [] CRITICAL 3 ''2024-05-01T10:00:05''))
     < priority_order (priority (new_job ''job-a'' ''process_invoice'' [] HIGH 3 ''2024-05-01T10:00:00''))"
proof -
  let ?a = "new_job ''job-a'' ''process_invoice'' [] HIGH 3 ''2024-05-01T10:00:00''"
  let ?b = "new_job ''job-b'' ''process_invoice'' [] CRITICAL 3 ''2024-05-01T10:00:05''"
  have mem: "?a \<in> set (map snd (jobs two_jobs_demo))" by (simp add: two_jobs_demo_jobs)
  have pend: "status ?a = PENDING" by (simp add: new_job_def)
  from get_next_job_priority_then_age[of two_jobs_demo]
  have "\<forall>j. fst (get_next_job two_jobs_demo) = Some j \<longrightarrow>
      j \<in> set (map snd (jobs two_jobs_demo)) \<and> status j = PENDING \<and>
      (\<forall>j' \<in> set (map snd (jobs two_jobs_demo)). status j' = PENDING \<longrightarrow>
         priority_order (priority j) < priority_order (priority j') \<or>
         (priority_order (priority j) = priority_order (priority j') \<and>
          created_at j \<le> created_at j')) \<and>
      j = hd (filter (\<lambda>x. job_key x = job_key j) (pending_jobs two_jobs_demo))"
    by (rule conjunct2[THEN conjunct1])
  from this[rule_format, OF two_jobs_demo_next]
  have "\<forall>j' \<in> set (map snd (jobs two_jobs_demo)). status j' = PENDING \<longrightarrow>
         priority_order (priority ?b) < priority_order (priority j') \<or>
         (priority_order (priority ?b) = priority_order (priority j') \<and>
          created_at ?b \<le> created_at j')"
    by blast
  from this[rule_format, OF mem pend]
  have "priority_order (priority ?b) < priority_order (priority ?a)"
    by (simp add: new_job_def)
  with two_jobs_demo_next mem show ?thesis by blast
qed

text \<open>
  C3 (as amended). \<open>add_job\<close> never fails and never looks at the job type: for every
  type it returns the identifier it was given by the generator, and the queue holds a
  new job under it, pending, with no attempt made and no result; every other entry is
  as before, and a fresh identifier appends the job. A type without a handler shows only
  when \<open>process_job\<close> routes the job: the \<open>ValueError\<close> raised there is handled as a
  failure of the handler.
\<close>

theorem add_job_accepts_every_type:
  "\<exists>q'. add_job q u now ty pl prio maxr = Inr (u, q') \<and>
      get_job q' u = Some (new_job u ty pl prio maxr now) \<and>
      status (new_job u ty pl prio maxr now) = PENDING \<and>
      attempts (new_job u ty pl prio maxr now) = 0 \<and>
      result (new_job u ty pl prio maxr now) = None \<and>
      (\<forall>k. k \<noteq> u \<longrightarrow> get_job q' k = get_job q k) \<and>
      (u \<notin> set (map fst (jobs q)) \<longrightarrow> jobs q' = jobs q @ [(u, new_job u ty pl prio maxr now)]) \<and>
      (ty \<notin> set handler_types \<longrightarrow>
         (\<forall>env. route_job env ty pl = Raised (''Unknown job type: '' @ ty)))"
proof -
  let ?q' = "q\<lparr>jobs := AList.update u (new_job u ty pl prio maxr now) (jobs q)\<rparr>"
  have e: "add_job q u now ty pl prio maxr = Inr (u, ?q')"
    by (simp add: add_job_def Let_def)
  have f: "u \<notin> set (map fst (jobs q)) \<longrightarrow> jobs ?q' = jobs q @ [(u, new_job u ty pl prio maxr now)]"
    by (simp add: update_append_fresh)
  from get_job_add_job[OF e] e f show ?thesis
    by (auto simp: new_job_def route_job_unknown)
qed

text \<open>
  The theorem at the empty queue and a type no handler is written for.
\<close>

theorem add_job_accepts_every_type_witness:
  "''no_such_type'' \<notin> set handler_types \<and>
   ''job-9'' \<notin> set (map fst (jobs init_queue)) \<and>
   (\<exists>q'. add_job init_queue ''job-9'' ''2024-05-01T10:00:00'' ''no_such_type'' [] NORMAL 3
            = Inr (''job-9'', q') \<and>
         jobs q' = [(''job-9'', new_job ''job-9'' ''no_such_type'' [] NORMAL 3 ''2024-05-01T10:00:00'')]) \<and>
   route_job env_ok ''no_such_type'' [] = Raised ''Unknown job type: no_such_type''"
proof -
  have t: "''no_such_type'' \<notin> set handler_types" by (simp add: handler_types_def)
  have f: "''job-9'' \<notin> set (map fst (jobs init_queue))" by (simp add: init_queue_def)
  from add_job_accepts_every_type[of init_queue "''job-9''" "''2024-05-01T10:00:00''"
         "''no_such_type''" "[]" NORMAL 3]
  obtain q' where
    a: "add_job init_queue ''job-9'' ''2024-05-01T10:00:00'' ''no_such_type'' [] NORMAL 3
          = Inr (''job-9'', q')"
    and b: "''job-9'' \<notin> set (map fst (jobs init_queue)) \<longrightarrow>
          jobs q' = jobs init_queue
            @ [(''job-9'', new_job ''job-9'' ''no_such_type'' [] NORMAL 3 ''2024-05-01T10:00:00'')]"
    and c: "''no_such_type'' \<notin> set handler_types \<longrightarrow>
          (\<forall>env. route_job env ''no_such_type'' [] = Raised (''Unknown job type: '' @ ''no_such_type''))"
    by blast
  from b[rule_format, OF f]
  have b': "jobs q' = [(''job-9'', new_job ''job-9'' ''no_such_type'' [] NORMAL 3 ''2024-05-01T10:00:00'')]"
    by (simp add: init_queue_def)
  from c[rule_format, OF t, of env_ok]
  have c': "route_job env_ok ''no_such_type'' [] = Raised ''Unknown job type: no_such_type''"
    by simp
  from t f a b' c' show ?thesis by blast
qed

text \<open>
  Against C3 as stated: \<open>add_job\<close> with a type that has no handler returns the id and
  stores the job; no error is raised.
\<close>

theorem add_job_unregistered_type_counterexample:
  "''no_such_type'' \<notin> set handler_types \<and>
   add_job init_queue ''job-9'' ''2024-05-01T10:00:00'' ''no_such_type'' [] NORMAL 3
     = Inr (''job-9'',
            \<lparr>jobs = [(''job-9'', new_job ''job-9'' ''no_such_type'' [] NORMAL 3
                                  ''2024-05-01T10:00:00'')],
             running = False\<rparr>)"
  by (simp add: handler_types_def add_job_def Let_def init_queue_def)

text \<open>
  C4 (as amended). In every reachable queue a completed job has a (non-empty) result.
  A successful attempt stores the handler's result and leaves \<open>error_message\<close> as it
  was: \<open>update_job_status\<close> assigns the field only when it is given a message, so the
  message of an earlier failed attempt stays on the completed job.
\<close>

theorem completed_has_result_keeps_error_message:
  assumes "reachable q" and "get_job q k = Some j"
  shows "(status j = COMPLETED \<longrightarrow> (\<exists>r. result j = Some r \<and> r \<noteq> [])) \<and>
         (\<forall>env t1 t2 res.
            status j = PENDING \<and> route_job env (job_type j) (payload j) = Returned res \<longrightarrow>
            (\<exists>j'. get_job (snd (process_job env t1 t2 q k)) k = Some j' \<and>
                  status j' = COMPLETED \<and> result j' = Some res \<and> res \<noteq> [] \<and>
                  error_message j' = error_message j))"
proof -
  from reachable_queue_ok[OF assms(1)] assms(2) have ok: "job_ok j"
    by (simp add: queue_ok_def)
  then have a: "status j = COMPLETED \<longrightarrow> (\<exists>r. result j = Some r \<and> r \<noteq> [])"
    by (auto simp: job_ok_def truthy_dict_def split: option.splits)
  have b: "\<forall>env t1 t2 res.
            status j = PENDING \<and> route_job env (job_type j) (payload j) = Returned res \<longrightarrow>
            (\<exists>j'. get_job (snd (process_job env t1 t2 q k)) k = Some j' \<and>
                  status j' = COMPLETED \<and> result j' = Some res \<and> res \<noteq> [] \<and>
                  error_message j' = error_message j)"
  proof (intro allI impI)
    fix env t1 t2 res
    assume h: "status j = PENDING \<and> route_job env (job_type j) (payload j) = Returned res"
    then have r: "route_job env (job_type j) (payload j) = Returned res" by simp
    have "get_job (snd (process_job env t1 t2 q k)) k = Some (after_attempt env t1 t2 j)"
      by (simp add: get_job_process_job[OF assms(2)])
    moreover have "status (after_attempt env t1 t2 j) = COMPLETED"
      by (simp add: after_attempt_status r)
    moreover have "result (after_attempt env t1 t2 j) = Some res"
      by (simp add: after_attempt_result r)
    moreover have "error_message (after_attempt env t1 t2 j) = error_message j"
      by (simp add: after_attempt_error_message r)
    moreover have "res \<noteq> []" using r by (rule route_job_result_nonempty)
    ultimately show "\<exists>j'. get_job (snd (process_job env t1 t2 q k)) k = Some j' \<and>
                  status j' = COMPLETED \<and> result j' = Some res \<and> res \<noteq> [] \<and>
                  error_message j' = error_message j"
      by blast
  qed
  from a b show ?thesis by blast
qed

text \<open>
  The theorem at a job that has failed once: the second attempt succeeds, and the job
  is completed with its result and with the message of the first failure.
\<close>

theorem completed_has_result_keeps_error_message_witness:
  "reachable one_failure_demo \<and>
   (\<exists>j'. get_job (snd (process_job env_ok ''t3'' ''t4'' one_failure_demo ''job-1'')) ''job-1'' = Some j' \<and>
         status j' = COMPLETED \<and>
         result j' = Some [(''invoice_id'', PyStr ''inv-7''), (''status'', PyStr ''completed'')] \<and>
         error_message j' = Some ''Supabase admin client not available'')"
proof -
  let ?j = "\<lparr>job_id = ''job-1'', job_type = ''process_invoice'',
           payload = [(''invoice_id'', PyStr ''inv-7''), (''user_id'', PyStr ''u-1'')],
           status = PENDING, priority = NORMAL, attempts = 1, max_retries = 3,
           error_message = Some ''Supabase admin client not available'',
           result = None, created_at = ''2024-05-01T10:00:00'',
           started_at = Some ''t1'', completed_at = None\<rparr>"
  have h: "status ?j = PENDING \<and>
           route_job env_ok (job_type ?j) (payload ?j)
             = Returned [(''invoice_id'', PyStr ''inv-7''), (''status'', PyStr ''completed'')]"
    by (simp add: route_job_def process_invoice_job_def env_ok_def dict_get_def)
  from completed_has_result_keeps_error_message[OF reachable_one_failure_demo one_failure_demo_job]
  have "\<forall>env t1 t2 res.
            status ?j = PENDING \<and> route_job env (job_type ?j) (payload ?j) = Returned res \<longrightarrow>
            (\<exists>j'. get_job (snd (process_job env t1 t2 one_failure_demo ''job-1'')) ''job-1'' = Some j' \<and>
                  status j' = COMPLETED \<and> result j' = Some res \<and> res \<noteq> [] \<and>
                  error_message j' = error_message ?j)"
    by (rule conjunct2)
  from this[rule_format, OF h, of "''t3''" "''t4''"]
  have "\<exists>j'. get_job (snd (process_job env_ok ''t3'' ''t4'' one_failure_demo ''job-1'')) ''job-1'' = Some j' \<and>
         status j' = COMPLETED \<and>
         result j' = Some [(''invoice_id'', PyStr ''inv-7''), (''status'', PyStr ''completed'')] \<and>
         error_message j' = Some ''Supabase admin client not available''"
    by simp
  with reachable_one_failure_demo show ?thesis by blast
qed

text \<open>
  Against C4 as stated: a job whose first attempt fails and whose second succeeds is
  \<open>COMPLETED\<close> with \<open>error_message\<close> still present.
\<close>

theorem completed_keeps_error_message_counterexample:
  "map (\<lambda>(k, j). (status j, attempts j, error_message j, result j)) (jobs flaky_demo)
   = [(COMPLETED, 2, Some ''Supabase admin client not available'',
       Some [(''invoice_id'', PyStr ''inv-7''), (''status'', PyStr ''completed'')])]"
  by (simp add: flaky_demo_def retry_demo_def added_def add_job_def new_job_def init_queue_def
        worker_round_def get_next_job_def pending_jobs_def process_job_def update_job_status_def
        route_job_def process_invoice_job_def env_down_def env_ok_def dict_get_def truthy_str_def
        truthy_dict_def Let_def)

text \<open>
  C10. \<open>get_next_job\<close> returns the queue it was given, so a second call gives the same
  answer; the job it returns is pending and is an entry of the queue afterwards, in a
  reachable queue the entry stored under the job's own id.
\<close>

theorem get_next_job_reads_only:
  "snd (get_next_job q) = q \<and>
   get_next_job (snd (get_next_job q)) = get_next_job q \<and>
   (\<forall>j. fst (get_next_job q) = Some j \<longrightarrow>
      status j = PENDING \<and> j \<in> set (map snd (jobs (snd (get_next_job q)))) \<and>
      (reachable q \<longrightarrow> get_job (snd (get_next_job q)) (job_id j) = Some j))"
proof -
  have a: "snd (get_next_job q) = q" by (rule get_next_job_snd)
  have "\<forall>j. fst (get_next_job q) = Some j \<longrightarrow>
      status j = PENDING \<and> j \<in> set (map snd (jobs q)) \<and>
      (reachable q \<longrightarrow> get_job q (job_id j) = Some j)"
  proof (intro allI impI)
    fix j assume j: "fst (get_next_job q) = Some j"
    from sort_key_head_min[OF get_next_job_Some[OF j]]
    have m: "j \<in> set (pending_jobs q)" by simp
    then have s: "status j = PENDING" and i: "j \<in> set (map snd (jobs q))"
      by (auto simp: pending_jobs_def)
    have "reachable q \<longrightarrow> get_job q (job_id j) = Some j"
      using get_next_job_in_queue[OF reachable_queue_ok j] by blast
    with s i show "status j = PENDING \<and> j \<in> set (map snd (jobs q)) \<and>
      (reachable q \<longrightarrow> get_job q (job_id j) = Some j)" by blast
  qed
  with a show ?thesis by simp
qed

text \<open>
  The theorem at the queue of two pending jobs: after the call the returned job is still
  stored, pending, under its id.
\<close>

theorem get_next_job_reads_only_witness:
  "fst (get_next_job two_jobs_demo) =
     Some (new_job ''job-b'' ''process_invoice'' [] CRITICAL 3 ''2024-05-01T10:00:05'') \<and>
   reachable two_jobs_demo \<and>
   get_job (snd (get_next_job two_jobs_demo)) ''job-b'' =
     Some (new_job ''job-b'' ''process_invoice'' [] CRITICAL 3 ''2024-05-01T10:00:05'')"
proof -
  let ?b = "new_job ''job-b'' ''process_invoice'' [] CRITICAL 3 ''2024-05-01T10:00:05''"
  from get_next_job_reads_only[of two_jobs_demo]
  have "\<forall>j. fst (get_next_job two_jobs_demo) = Some j \<longrightarrow>
      status j = PENDING \<and> j \<in> set (map snd (jobs (snd (get_next_job two_jobs_demo)))) \<and>
      (reachable two_jobs_demo \<longrightarrow> get_job (snd (get_next_job two_jobs_demo)) (job_id j) = Some j)"
    by (rule conjunct2[THEN conjunct2])
  from this[rule_format, OF two_jobs_demo_next]
  have "reachable two_jobs_demo \<longrightarrow> get_job (snd (get_next_job two_jobs_demo)) (job_id ?b) = Some ?b"
    by blast
  from this[rule_format, OF reachable_two_jobs_demo]
  have "get_job (snd (get_next_job two_jobs_demo)) ''job-b'' = Some ?b"
    by (simp add: new_job_def)
  with two_jobs_demo_next reachable_two_jobs_demo show ?thesis by blast
qed

section \<open>The invoice processor: lemmas\<close>

lemma and_then_Inl [simp]: "and_then (ev, Inl e) f = (ev, Inl e)"
  by (simp add: and_then_def)

lemma and_then_Inr [simp]: "and_then (ev, Inr x) f = (ev @ fst (f x), snd (f x))"
  by (simp add: and_then_def split: prod.splits)

lemma call_Inl [simp]: "call ev (Inl m) = ([ev], Inl (External m))"
  by (simp add: call_def)

lemma call_Inr [simp]: "call ev (Inr x) = ([ev], Inr x)"
  by (simp add: call_def)

lemma external_only_call: "external_only (call ev r)"
  by (cases r) (simp_all add: external_only_def)

lemma external_only_and_then:
  "external_only m \<Longrightarrow> (\<And>x. external_only (f x)) \<Longrightarrow> external_only (and_then m f)"
  by (cases m; cases "snd m") (auto simp: external_only_def)

lemma external_only_ocr_pages: "external_only (ocr_pages self images acc)"
proof (induction images arbitrary: acc)
  case Nil
  show ?case by (simp add: external_only_def)
next
  case (Cons i images)
  show ?case
    by (simp del: and_then_Inr and_then_Inl) (intro external_only_and_then external_only_call Cons)
qed

lemma external_only_pdf: "external_only (extract_text_from_pdf self b)"
  unfolding extract_text_from_pdf_def
  by (intro external_only_and_then external_only_call)
     (auto simp: external_only_def[of "([], _)"] intro!: external_only_and_then external_only_call external_only_ocr_pages)

lemma external_only_image: "external_only (extract_text_from_image self b)"
  unfolding extract_text_from_image_def
  by (intro external_only_and_then external_only_call)

lemma ocr_pages_all_ok:
  assumes "\<forall>i \<in> set images. \<exists>t. image_to_string self i = Inr t"
  shows "ocr_pages self images acc =
           (map ImageToString images,
            Inr (acc @ concat (map (\<lambda>i. (case image_to_string self i of Inr t \<Rightarrow> t | Inl m \<Rightarrow> []) @ newline) images)))"
  using assms
proof (induction images arbitrary: acc)
  case Nil
  show ?case by simp
next
  case (Cons i images)
  from Cons.prems obtain t where t: "image_to_string self i = Inr t" by auto
  from Cons.prems have "\<forall>i \<in> set images. \<exists>t. image_to_string self i = Inr t" by simp
  from Cons.IH[OF this] t show ?case by simp
qed

lemma events_ocr_pages_prefix:
  "\<exists>n. fst (ocr_pages self images acc) = map ImageToString (take n images)"
proof (induction images arbitrary: acc)
  case Nil
  show ?case by simp
next
  case (Cons i images)
  show ?case
  proof (cases "image_to_string self i")
    case (Inl m)
    then have "fst (ocr_pages self (i # images) acc) = map ImageToString (take 1 (i # images))" by simp
    then show ?thesis by blast
  next
    case (Inr t)
    from Cons[of "acc @ t @ newline"] obtain n where
      "fst (ocr_pages self images (acc @ t @ newline)) = map ImageToString (take n images)" by blast
    with Inr have "fst (ocr_pages self (i # images) acc) = map ImageToString (take (Suc n) (i # images))"
      by simp
    then show ?thesis by blast
  qed
qed

lemma fst_and_then_prefix: "\<exists>rest. fst (and_then m f) = fst m @ rest"
  by (cases m; cases "snd m") auto

lemma fst_call [simp]: "fst (call ev r) = [ev]"
  by (simp add: call_def)

lemma no_structuring_ocr_pages:
  "\<forall>e \<in> set (fst (ocr_pages self images acc)). \<not> structuring_event e"
proof -
  obtain n where "fst (ocr_pages self images acc) = map ImageToString (take n images)"
    using events_ocr_pages_prefix by blast
  then show ?thesis by (auto simp: structuring_event_def)
qed

lemma no_structuring_pdf:
  "\<forall>e \<in> set (fst (extract_text_from_pdf self b)). \<not> structuring_event e"
  using no_structuring_ocr_pages[of self _ "[]"]
  by (cases "read_pdf_text self b"; cases "convert_from_path self b 300")
     (auto simp: extract_text_from_pdf_def structuring_event_def)

lemma no_structuring_image:
  "\<forall>e \<in> set (fst (extract_text_from_image self b)). \<not> structuring_event e"
  by (cases "image_open self b")
     (auto simp: extract_text_from_image_def structuring_event_def)

lemma no_structuring_file:
  "\<forall>e \<in> set (fst (extract_text_from_file self b p)). \<not> structuring_event e"
  using no_structuring_pdf[of self b] no_structuring_image[of self b]
  by (simp add: extract_text_from_file_def Let_def)

lemma no_structuring_download:
  "\<forall>e \<in> set (fst (download_file_from_storage self p)). \<not> structuring_event e"
  by (cases "storage_download self (lstrip_slash p)")
     (auto simp: download_file_from_storage_def Let_def structuring_event_def)

lemma extract_with_regex_eq:
  "extract_with_regex text = ([RegexFallback text], Inr (PyDict (regex_fields text)))"
  by (simp add: extract_with_regex_def)

lemma gemini_cases:
  "extract_with_gemini self text =
     (case generate_content self (prompt_for text) of
        Inl m \<Rightarrow> ([GenerateContent (prompt_for text), RegexFallback text], Inr (PyDict (regex_fields text)))
      | Inr response \<Rightarrow>
          (case strip_code_fence (strip response) of
             Inl e \<Rightarrow> ([GenerateContent (prompt_for text), RegexFallback text], Inr (PyDict (regex_fields text)))
           | Inr cleaned \<Rightarrow>
               (case json_loads self cleaned of
                  Inl m \<Rightarrow> ([GenerateContent (prompt_for text), JsonLoads cleaned, RegexFallback text],
                            Inr (PyDict (regex_fields text)))
                | Inr v \<Rightarrow> ([GenerateContent (prompt_for text), JsonLoads cleaned], Inr v))))"
  by (simp add: extract_with_gemini_def Let_def extract_with_regex_eq split: sum.splits)

lemma split_fence_acc_nonempty: "\<exists>y zs. split_fence_acc acc s = y # zs"
  by (induction acc s rule: split_fence_acc.induct) auto

lemma split_fence_acc_two:
  "\<exists>x y zs. split_fence_acc acc (fence @ s) = x # y # zs"
  using split_fence_acc_nonempty[of "[]" s] by (auto simp: fence_def)

lemma strip_code_fence_total: "\<exists>cleaned. strip_code_fence s = Inr cleaned"
proof (cases "startswith s fence")
  case True
  then have "s = fence @ drop (length fence) s"
    by (metis append_take_drop_id startswith_def)
  then obtain x y zs where "split_fence s = x # y # zs"
    unfolding split_fence_def using split_fence_acc_two[of "[]" "drop (length fence) s"] by metis
  with True show ?thesis by (simp add: strip_code_fence_def)
next
  case False
  then show ?thesis by (simp add: strip_code_fence_def)
qed

lemma gemini_never_raises: "\<exists>ev v. extract_with_gemini self text = (ev, Inr v)"
  by (simp add: gemini_cases split: sum.splits)

lemma invoice_data_never_raises: "\<exists>ev v. extract_invoice_data self text = (ev, Inr v)"
  using gemini_never_raises[of self "text"]
  by (auto simp: extract_invoice_data_def extract_with_regex_eq)

lemma invoice_data_structuring:
  "\<exists>e \<in> set (fst (extract_invoice_data self text)). structuring_event e"
  by (auto simp: extract_invoice_data_def extract_with_regex_eq gemini_cases structuring_event_def
      split: sum.splits)

lemma process_invoice_of_try:
  "process_invoice self i u now now2 =
     (case process_invoice_try self i u now of
        (ev, Inr res) \<Rightarrow> (ev, Inr res)
      | (ev, Inl e) \<Rightarrow>
          (ev @ [UpdateInvoice i (failed_data e now2)],
           (case update_invoice self i (failed_data e now2) of
              Some m \<Rightarrow> Inl (External m)
            | None \<Rightarrow> Inr [(''success'', PyBool False), (''invoice_id'', PyStr i),
                            (''error'', PyStr (error_str e))])))"
  by (simp add: process_invoice_def failed_data_def Let_def split: prod.splits sum.splits option.splits)

lemma fst_process_invoice:
  "\<exists>rest. fst (process_invoice self i u now now2) = fst (process_invoice_try self i u now) @ rest \<and>
      (\<forall>e \<in> set rest. \<not> structuring_event e)"
  by (cases "process_invoice_try self i u now"; cases "snd (process_invoice_try self i u now)")
     (auto simp: process_invoice_of_try structuring_event_def)

lemma try_after_text:
  assumes "select_invoice self invoice_id = Inr (Some file_path # others)" and "file_path \<noteq> []"
    and "download_file_from_storage self file_path = (ev1, Inr file_bytes)"
    and "extract_text_from_file self file_bytes file_path = (ev2, Inr text)"
  shows "process_invoice_try self invoice_id user_id now =
           (if text = [] \<or> length (strip text) < 10
            then (SelectInvoice invoice_id # ev1 @ ev2, Inl NoMeaningfulText)
            else and_then (SelectInvoice invoice_id # ev1 @ ev2, Inr ())
                   (\<lambda>u. and_then (extract_invoice_data self text)
                      (\<lambda>structured_data.
                         case structured_data of
                           PyDict d \<Rightarrow>
                             (let update_data = build_update_data d now
                              in case update_invoice self invoice_id update_data of
                                   Some m \<Rightarrow> ([UpdateInvoice invoice_id update_data], Inl (External m))
                                 | None \<Rightarrow>
                                     ([UpdateInvoice invoice_id update_data],
                                      Inr [(''success'', PyBool True),
                                           (''invoice_id'', PyStr invoice_id),
                                           (''extracted_data'', structured_data),
                                           (''text_length'', PyInt (int (length text)))]))
                         | other \<Rightarrow> ([], Inl (AttributeError (type_name other))))))"
  using assms by (simp add: process_invoice_try_def)

lemma strip_Nil [simp]: "strip [] = []"
  by (simp add: strip_def)

lemma gate_short:
  assumes "select_invoice self invoice_id = Inr (Some file_path # others)" and "file_path \<noteq> []"
    and "download_file_from_storage self file_path = (ev1, Inr file_bytes)"
    and "extract_text_from_file self file_bytes file_path = (ev2, Inr text)"
    and "length (strip text) < 10"
  shows "process_invoice_try self invoice_id user_id now =
           (SelectInvoice invoice_id # ev1 @ ev2, Inl NoMeaningfulText)"
    and "\<forall>e \<in> set (fst (process_invoice self invoice_id user_id now now2)). \<not> structuring_event e"
proof -
  show t: "process_invoice_try self invoice_id user_id now =
           (SelectInvoice invoice_id # ev1 @ ev2, Inl NoMeaningfulText)"
    using try_after_text[OF assms(1-4)] assms(5) by simp
  have "\<forall>e \<in> set ev1. \<not> structuring_event e"
    using no_structuring_download[of self file_path] assms(3) by simp
  moreover have "\<forall>e \<in> set ev2. \<not> structuring_event e"
    using no_structuring_file[of self file_bytes file_path] assms(4) by simp
  moreover have "\<not> structuring_event (SelectInvoice invoice_id)"
    by (simp add: structuring_event_def)
  ultimately show "\<forall>e \<in> set (fst (process_invoice self invoice_id user_id now now2)). \<not> structuring_event e"
    using fst_process_invoice[of self invoice_id user_id now now2] t by auto
qed

lemma gate_long:
  assumes "select_invoice self invoice_id = Inr (Some file_path # others)" and "file_path \<noteq> []"
    and "download_file_from_storage self file_path = (ev1, Inr file_bytes)"
    and "extract_text_from_file self file_bytes file_path = (ev2, Inr text)"
    and "10 \<le> length (strip text)"
  shows "\<exists>e \<in> set (fst (process_invoice self invoice_id user_id now now2)). structuring_event e"
    and "snd (process_invoice_try self invoice_id user_id now) \<noteq> Inl NoMeaningfulText"
proof -
  from assms(5) have ne: "\<not> (text = [] \<or> length (strip text) < 10)" by auto
  obtain ev3 v where d: "extract_invoice_data self text = (ev3, Inr v)"
    using invoice_data_never_raises by blast
  from invoice_data_structuring[of self "text"] d
  obtain e where e: "e \<in> set ev3" "structuring_event e" by auto
  have t: "\<exists>rest r. process_invoice_try self invoice_id user_id now
             = (SelectInvoice invoice_id # ev1 @ ev2 @ ev3 @ rest, r) \<and> r \<noteq> Inl NoMeaningfulText"
    using try_after_text[OF assms(1-4), of user_id now] ne d
    by (cases v) (auto simp: Let_def split: option.splits)
  then show "snd (process_invoice_try self invoice_id user_id now) \<noteq> Inl NoMeaningfulText"
    by auto
  from t e fst_process_invoice[of self invoice_id user_id now now2]
  show "\<exists>e \<in> set (fst (process_invoice self invoice_id user_id now now2)). structuring_event e"
    by auto
qed

lemma file_unsupported:
  "lower (path_suffix self p) \<notin> set (''.pdf'' # image_extensions) \<Longrightarrow>
     extract_text_from_file self b p = ([], Inl (UnsupportedFileType (lower (path_suffix self p))))"
  by (simp add: extract_text_from_file_def Let_def)

lemma file_supported:
  assumes "lower (path_suffix self p) \<in> set (''.pdf'' # image_extensions)"
  shows "snd (extract_text_from_file self b p) \<noteq> Inl (UnsupportedFileType x)"
    and "fst (extract_text_from_file self b p) \<noteq> []"
proof -
  have "external_only (extract_text_from_file self b p)"
    using assms external_only_pdf[of self b] external_only_image[of self b]
    by (auto simp: extract_text_from_file_def Let_def)
  then show "snd (extract_text_from_file self b p) \<noteq> Inl (UnsupportedFileType x)"
    by (auto simp: external_only_def split: sum.splits)
  have "fst (extract_text_from_pdf self b) \<noteq> []"
    by (cases "read_pdf_text self b") (simp_all add: extract_text_from_pdf_def)
  moreover have "fst (extract_text_from_image self b) \<noteq> []"
    by (cases "image_open self b") (simp_all add: extract_text_from_image_def)
  ultimately show "fst (extract_text_from_file self b p) \<noteq> []"
    using assms by (auto simp: extract_text_from_file_def Let_def)
qed

lemma first_match_first:
  "(\<forall>q \<in> set pre. search_group1 q s = None) \<Longrightarrow> search_group1 p s = Some g \<Longrightarrow>
     first_match (pre @ p # post) s = Some g"
  by (induction pre) auto

lemma first_match_none:
  "(\<forall>q \<in> set ps. search_group1 q s = None) \<Longrightarrow> first_match ps s = None"
  by (induction ps) auto

lemma regex_fields_keys:
  "map fst (regex_fields text) =
     [''vendor_name'', ''invoice_number'', ''invoice_date'', ''total_amount'', ''currency'']"
  by (simp add: regex_fields_def Let_def split: option.splits)

lemma regex_fields_get:
  "dict_get (regex_fields text) ''invoice_number'' =
     (case first_match invoice_patterns text of None \<Rightarrow> PyNone | Some g \<Rightarrow> PyStr g)"
  "dict_get (regex_fields text) ''invoice_date'' =
     (case first_match date_patterns text of None \<Rightarrow> PyNone | Some g \<Rightarrow> PyStr g)"
  "dict_get (regex_fields text) ''total_amount'' =
     (case first_match amount_patterns text of None \<Rightarrow> PyNone
      | Some g \<Rightarrow> (case py_float (replace_comma g) of None \<Rightarrow> PyNone | Some x \<Rightarrow> PyFloat x))"
  "dict_get (regex_fields text) ''vendor_name'' = PyNone"
  "dict_get (regex_fields text) ''currency'' = PyStr ''USD''"
  by (simp_all add: regex_fields_def Let_def dict_get_def split: option.splits)

lemma demo_read_pdf_text: "read_pdf_text demo_processor b = Inr []"
  by (simp add: read_pdf_text_def demo_processor_def)

lemma strip_text50: "strip (text50 @ newline) = text50"
  by (simp add: strip_def text50_def newline_def is_space_def)

lemma blank_scan_text:
  "extract_text_from_file blank_scan_processor ''%PDF-1.4'' ''/u-1/scan.pdf'' =
     ([ReadPdfText ''%PDF-1.4'', ConvertFromPath ''%PDF-1.4'' 300, ImageToString 0], Inr newline)"
  by (simp add: extract_text_from_file_def extract_text_from_pdf_def read_pdf_text_def
        blank_scan_processor_def demo_processor_def lower_def lower_char_def)

lemma blank_scan_download:
  "download_file_from_storage blank_scan_processor ''/u-1/scan.pdf'' =
     ([Download ''u-1/scan.pdf''], Inr ''%PDF-1.4'')"
  by (simp add: download_file_from_storage_def blank_scan_processor_def demo_processor_def
        lstrip_slash_def Let_def)

lemma short_fields: "regex_fields short_ocr_text =
    [(''vendor_name'', PyNone), (''invoice_number'', PyNone), (''invoice_date'', PyNone),
     (''total_amount'', PyFloat 5), (''currency'', PyStr ''USD'')]"
  by code_simp

lemma short_strip: "strip short_ocr_text = ''Total: 5.0''"
  by (simp add: short_ocr_text_def strip_def newline_def is_space_def)

lemma short_length: "length short_ocr_text = 11"
  by (simp add: short_ocr_text_def newline_def)

lemma scenario_regex_fields: "regex_fields scenario_text = scenario_fields"
  by code_simp

lemma fenced_response_cleaned:
  "strip_code_fence (strip fenced_response) = Inr (''{'' @ quoted ''vendor_name'' @ '':'')"
  by (simp add: fenced_response_def fence_def newline_def quoted_def strip_def is_space_def
        strip_code_fence_def startswith_def split_fence_def)

lemma second_invoice:
  "search_group1 (invoice_patterns ! 0) second_text = None"
  "search_group1 (invoice_patterns ! 1) second_text = None"
  "search_group1 (invoice_patterns ! 2) second_text = Some ''77''"
  by code_simp+

lemma second_date:
  "search_group1 (date_patterns ! 0) second_text = None"
  "search_group1 (date_patterns ! 1) second_text = None"
  "search_group1 (date_patterns ! 2) second_text = None"
  by code_simp+

lemma second_amount:
  "search_group1 (amount_patterns ! 0) second_text = None"
  "search_group1 (amount_patterns ! 1) second_text = Some ''1,200.50''"
  by code_simp+

lemma second_float: "py_float (replace_comma ''1,200.50'') = Some (2401 / 2)"
  by code_simp

lemma patterns_nth:
  "invoice_patterns = [invoice_patterns ! 0, invoice_patterns ! 1] @ invoice_patterns ! 2 # []"
  "date_patterns = [date_patterns ! 0, date_patterns ! 1, date_patterns ! 2]"
  "amount_patterns = [amount_patterns ! 0] @ amount_patterns ! 1 # [amount_patterns ! 2]"
  by (simp_all add: invoice_patterns_def date_patterns_def amount_patterns_def)

lemma try_unsupported:
  assumes "select_invoice self invoice_id = Inr (Some file_path # others)" and "file_path \<noteq> []"
    and "download_file_from_storage self file_path = (ev1, Inr file_bytes)"
    and "lower (path_suffix self file_path) \<notin> set (''.pdf'' # image_extensions)"
  shows "process_invoice_try self invoice_id user_id now =
           (SelectInvoice invoice_id # ev1, Inl (UnsupportedFileType (lower (path_suffix self file_path))))"
  using assms(1-3) by (simp add: process_invoice_try_def file_unsupported[OF assms(4)])

section \<open>The invoice processor: claims\<close>

text \<open>
  C5 (as amended). When the text layer of a PDF is read as \<open>text\<close>,
  \<open>_extract_text_from_pdf\<close> returns it, with no call to the rasterizer or to OCR, if the
  length of \<open>text.strip()\<close> is above 50; the comparison is strict. Otherwise the second
  call of the run is \<open>convert_from_path\<close> at 300 DPI, and when this call and OCR on each
  page succeed, every page is read by OCR in page order and the result is the
  concatenation of the page texts, each followed by a newline.
\<close>

theorem pdf_text_accepted_iff_above_fifty:
  assumes "read_pdf_text self pdf_bytes = Inr text"
  shows "(50 < length (strip text) \<longrightarrow>
            extract_text_from_pdf self pdf_bytes = ([ReadPdfText pdf_bytes], Inr text)) \<and>
         (\<not> 50 < length (strip text) \<longrightarrow>
            take 2 (fst (extract_text_from_pdf self pdf_bytes))
              = [ReadPdfText pdf_bytes, ConvertFromPath pdf_bytes 300] \<and>
            (\<forall>images. convert_from_path self pdf_bytes 300 = Inr images \<and>
                 (\<forall>i \<in> set images. \<exists>t. image_to_string self i = Inr t) \<longrightarrow>
               extract_text_from_pdf self pdf_bytes =
                 ([ReadPdfText pdf_bytes, ConvertFromPath pdf_bytes 300] @ map ImageToString images,
                  Inr (concat (map (\<lambda>i. ocr_text_of self i @ newline) images)))))"
proof (intro conjI impI allI)
  assume "50 < length (strip text)"
  then have "text \<noteq> []" by (auto simp: strip_def)
  with \<open>50 < length (strip text)\<close> assms
  show "extract_text_from_pdf self pdf_bytes = ([ReadPdfText pdf_bytes], Inr text)"
    by (simp add: extract_text_from_pdf_def)
next
  assume n: "\<not> 50 < length (strip text)"
  show "take 2 (fst (extract_text_from_pdf self pdf_bytes))
          = [ReadPdfText pdf_bytes, ConvertFromPath pdf_bytes 300]"
    using assms n
    by (cases "convert_from_path self pdf_bytes 300") (simp_all add: extract_text_from_pdf_def)
next
  fix images
  assume n: "\<not> 50 < length (strip text)"
    and c: "convert_from_path self pdf_bytes 300 = Inr images \<and>
            (\<forall>i \<in> set images. \<exists>t. image_to_string self i = Inr t)"
  from c have o: "ocr_pages self images [] =
      (map ImageToString images, Inr ([] @ concat (map (\<lambda>i. (case image_to_string self i of Inr t \<Rightarrow> t | Inl m \<Rightarrow> []) @ newline) images)))"
    by (intro ocr_pages_all_ok) simp
  have e: "(\<lambda>i. (case image_to_string self i of Inr t \<Rightarrow> t | Inl m \<Rightarrow> []) @ newline)
         = (\<lambda>i. ocr_text_of self i @ newline)"
    by (auto simp: ocr_text_of_def fun_eq_iff split: sum.splits)
  show "extract_text_from_pdf self pdf_bytes =
          ([ReadPdfText pdf_bytes, ConvertFromPath pdf_bytes 300] @ map ImageToString images,
           Inr (concat (map (\<lambda>i. ocr_text_of self i @ newline) images)))"
    using assms n c o by (simp add: extract_text_from_pdf_def e)
qed

text \<open>
  The theorem at the scenario of the specification: the text layer is empty, the one
  page is rasterized at 300 DPI and read by OCR.
\<close>

theorem pdf_text_accepted_iff_above_fifty_witness:
  "read_pdf_text demo_processor ''%PDF-1.4'' = Inr [] \<and>
   extract_text_from_pdf demo_processor ''%PDF-1.4'' =
     ([ReadPdfText ''%PDF-1.4'', ConvertFromPath ''%PDF-1.4'' 300, ImageToString 0],
      Inr (''Invoice #1001 Total: $250.00'' @ newline))"
proof -
  have n: "\<not> 50 < length (strip [])" by simp
  have c: "convert_from_path demo_processor ''%PDF-1.4'' 300 = Inr [0] \<and>
           (\<forall>i \<in> set [0]. \<exists>t. image_to_string demo_processor i = Inr t)"
    by (simp add: demo_processor_def)
  from pdf_text_accepted_iff_above_fifty[OF demo_read_pdf_text, of "''%PDF-1.4''"]
  have "\<not> 50 < length (strip []) \<longrightarrow>
            take 2 (fst (extract_text_from_pdf demo_processor ''%PDF-1.4''))
              = [ReadPdfText ''%PDF-1.4'', ConvertFromPath ''%PDF-1.4'' 300] \<and>
            (\<forall>images. convert_from_path demo_processor ''%PDF-1.4'' 300 = Inr images \<and>
                 (\<forall>i \<in> set images. \<exists>t. image_to_string demo_processor i = Inr t) \<longrightarrow>
               extract_text_from_pdf demo_processor ''%PDF-1.4'' =
                 ([ReadPdfText ''%PDF-1.4'', ConvertFromPath ''%PDF-1.4'' 300] @ map ImageToString images,
                  Inr (concat (map (\<lambda>i. ocr_text_of demo_processor i @ newline) images))))"
    by (rule conjunct2)
  from this[rule_format, OF n, THEN conjunct2, rule_format, OF c]
  have "extract_text_from_pdf demo_processor ''%PDF-1.4'' =
                 ([ReadPdfText ''%PDF-1.4'', ConvertFromPath ''%PDF-1.4'' 300] @ map ImageToString [0],
                  Inr (concat (map (\<lambda>i. ocr_text_of demo_processor i @ newline) [0])))" .
  then have "extract_text_from_pdf demo_processor ''%PDF-1.4'' =
     ([ReadPdfText ''%PDF-1.4'', ConvertFromPath ''%PDF-1.4'' 300, ImageToString 0],
      Inr (''Invoice #1001 Total: $250.00'' @ newline))"
    by (simp add: ocr_text_of_def demo_processor_def)
  with demo_read_pdf_text show ?thesis by blast
qed

text \<open>
  Against C5 as stated (``at least 50 characters never invokes OCR''): a text layer of
  exactly 50 characters is not accepted; the PDF is rasterized and read by OCR.
\<close>

theorem pdf_fifty_characters_counterexample:
  "length text50 = 50 \<and>
   read_pdf_text text50_processor ''%PDF-1.4'' = Inr (text50 @ newline) \<and>
   length (strip (text50 @ newline)) = 50 \<and>
   fst (extract_text_from_pdf text50_processor ''%PDF-1.4'') =
     [ReadPdfText ''%PDF-1.4'', ConvertFromPath ''%PDF-1.4'' 300, ImageToString 0]"
proof -
  have l: "length text50 = 50" by (simp add: text50_def)
  have r: "read_pdf_text text50_processor ''%PDF-1.4'' = Inr (text50 @ newline)"
    by (simp add: read_pdf_text_def text50_processor_def demo_processor_def text50_def)
  have "fst (extract_text_from_pdf text50_processor ''%PDF-1.4'') =
     [ReadPdfText ''%PDF-1.4'', ConvertFromPath ''%PDF-1.4'' 300, ImageToString 0]"
    by (simp add: extract_text_from_pdf_def r strip_text50 l)
       (simp add: text50_processor_def demo_processor_def)
  with l r strip_text50 show ?thesis by simp
qed

text \<open>
  C6 (as amended). After the text has been extracted, \<open>process_invoice\<close> fails with
  \<open>OCR failed to extract meaningful text from invoice\<close> when the length of
  \<open>text.strip()\<close> is below 10, and then no structuring stage runs and the method returns
  \<open>success: False\<close> with that message. With a stripped length of 10 or more a
  structuring stage runs and the run does not fail with that error. The length counts
  every character between the first and the last non-blank one, white space included.
\<close>

theorem meaningful_text_gate:
  assumes "select_invoice self invoice_id = Inr (Some file_path # others)" and "file_path \<noteq> []"
    and "download_file_from_storage self file_path = (ev1, Inr file_bytes)"
    and "extract_text_from_file self file_bytes file_path = (ev2, Inr text)"
  shows "(length (strip text) < 10 \<longrightarrow>
            process_invoice_try self invoice_id user_id now
              = (SelectInvoice invoice_id # ev1 @ ev2, Inl NoMeaningfulText) \<and>
            (\<forall>e \<in> set (fst (process_invoice self invoice_id user_id now now2)). \<not> structuring_event e) \<and>
            (update_invoice self invoice_id (failed_data NoMeaningfulText now2) = None \<longrightarrow>
               snd (process_invoice self invoice_id user_id now now2)
                 = Inr [(''success'', PyBool False), (''invoice_id'', PyStr invoice_id),
                        (''error'', PyStr ''OCR failed to extract meaningful text from invoice'')])) \<and>
         (10 \<le> length (strip text) \<longrightarrow>
            (\<exists>e \<in> set (fst (process_invoice self invoice_id user_id now now2)). structuring_event e) \<and>
            snd (process_invoice_try self invoice_id user_id now) \<noteq> Inl NoMeaningfulText)"
proof (intro conjI impI)
  assume s: "length (strip text) < 10"
  from gate_short(1)[OF assms s]
  show t: "process_invoice_try self invoice_id user_id now
         = (SelectInvoice invoice_id # ev1 @ ev2, Inl NoMeaningfulText)" .
  from gate_short(2)[OF assms s]
  show "\<forall>e \<in> set (fst (process_invoice self invoice_id user_id now now2)). \<not> structuring_event e" .
  assume "update_invoice self invoice_id (failed_data NoMeaningfulText now2) = None"
  with t show "snd (process_invoice self invoice_id user_id now now2)
                 = Inr [(''success'', PyBool False), (''invoice_id'', PyStr invoice_id),
                        (''error'', PyStr ''OCR failed to extract meaningful text from invoice'')]"
    by (simp add: process_invoice_of_try error_str_def)
next
  assume l: "10 \<le> length (strip text)"
  from gate_long(1)[OF assms l]
  show "\<exists>e \<in> set (fst (process_invoice self invoice_id user_id now now2)). structuring_event e" .
  from gate_long(2)[OF assms l]
  show "snd (process_invoice_try self invoice_id user_id now) \<noteq> Inl NoMeaningfulText" .
qed

text \<open>
  The theorem at a scan on which OCR reads nothing: the text is one newline, the run
  ends after the OCR call, and the result reports the failure.
\<close>

theorem meaningful_text_gate_witness:
  "select_invoice blank_scan_processor ''inv-1'' = Inr [Some ''/u-1/scan.pdf''] \<and>
   length (strip newline) < 10 \<and>
   process_invoice_try blank_scan_processor ''inv-1'' ''u-1'' ''T1'' =
     ([SelectInvoice ''inv-1'', Download ''u-1/scan.pdf'', ReadPdfText ''%PDF-1.4'',
       ConvertFromPath ''%PDF-1.4'' 300, ImageToString 0], Inl NoMeaningfulText) \<and>
   snd (process_invoice blank_scan_processor ''inv-1'' ''u-1'' ''T1'' ''T2'') =
     Inr [(''success'', PyBool False), (''invoice_id'', PyStr ''inv-1''),
          (''error'', PyStr ''OCR failed to extract meaningful text from invoice'')]"
proof -
  have s: "select_invoice blank_scan_processor ''inv-1'' = Inr (Some ''/u-1/scan.pdf'' # [])"
    by (simp add: blank_scan_processor_def demo_processor_def)
  have p: "''/u-1/scan.pdf'' \<noteq> []" by simp
  have l: "length (strip newline) < 10"
    by (simp add: strip_def newline_def is_space_def)
  have u: "update_invoice blank_scan_processor ''inv-1'' (failed_data NoMeaningfulText ''T2'') = None"
    by (simp add: blank_scan_processor_def demo_processor_def)
  note g = meaningful_text_gate[OF s p blank_scan_download blank_scan_text,
             of "''u-1''" "''T1''" "''T2''", THEN conjunct1, rule_format, OF l]
  from g[THEN conjunct1]
  have a: "process_invoice_try blank_scan_processor ''inv-1'' ''u-1'' ''T1'' =
     ([SelectInvoice ''inv-1'', Download ''u-1/scan.pdf'', ReadPdfText ''%PDF-1.4'',
       ConvertFromPath ''%PDF-1.4'' 300, ImageToString 0], Inl NoMeaningfulText)"
    by simp
  from g[THEN conjunct2, THEN conjunct2, rule_format, OF u]
  have b: "snd (process_invoice blank_scan_processor ''inv-1'' ''u-1'' ''T1'' ''T2'') =
     Inr [(''success'', PyBool False), (''invoice_id'', PyStr ''inv-1''),
          (''error'', PyStr ''OCR failed to extract meaningful text from invoice'')]" .
  from s l a b show ?thesis by simp
qed

text \<open>
  Against C6 as stated (``does not exceed 10 non-whitespace characters''): a text whose
  stripped length is 10, with 9 characters that are not white space, passes the gate
  and is structured; the invoice is completed.
\<close>

theorem ten_characters_counterexample:
  "short_ocr_text = ''Total: 5.0'' @ newline \<and>
   length (strip short_ocr_text) = 10 \<and>
   length (filter (\<lambda>c. \<not> is_space c) short_ocr_text) = 9 \<and>
   process_invoice short_text_processor ''inv-1'' ''u-1'' ''T1'' ''T2'' =
     ([SelectInvoice ''inv-1'', Download ''u-1/scan.pdf'', ReadPdfText ''%PDF-1.4'',
       ConvertFromPath ''%PDF-1.4'' 300, ImageToString 0, RegexFallback short_ocr_text,
       UpdateInvoice ''inv-1''
         [(''status'', PyStr ''completed''), (''processed_at'', PyStr ''T1Z''),
          (''total_amount'', PyFloat 5), (''currency'', PyStr ''USD''),
          (''line_items'', PyList [])]],
      Inr [(''success'', PyBool True), (''invoice_id'', PyStr ''inv-1''),
           (''extracted_data'',
            PyDict [(''vendor_name'', PyNone), (''invoice_number'', PyNone),
                    (''invoice_date'', PyNone), (''total_amount'', PyFloat 5),
                    (''currency'', PyStr ''USD'')]),
           (''text_length'', PyInt 11)])"
proof -
  have a: "length (strip short_ocr_text) = 10" by (simp add: short_strip)
  have b: "length (filter (\<lambda>c. \<not> is_space c) short_ocr_text) = 9"
    by (simp add: short_ocr_text_def newline_def is_space_def)
  have t: "extract_text_from_file short_text_processor ''%PDF-1.4'' ''/u-1/scan.pdf'' =
     ([ReadPdfText ''%PDF-1.4'', ConvertFromPath ''%PDF-1.4'' 300, ImageToString 0],
      Inr short_ocr_text)"
    by (simp add: extract_text_from_file_def extract_text_from_pdf_def read_pdf_text_def
        short_text_processor_def demo_processor_def lower_def lower_char_def short_ocr_text_def)
  have d: "download_file_from_storage short_text_processor ''/u-1/scan.pdf'' =
     ([Download ''u-1/scan.pdf''], Inr ''%PDF-1.4'')"
    by (simp add: download_file_from_storage_def short_text_processor_def demo_processor_def
        lstrip_slash_def Let_def)
  have s: "select_invoice short_text_processor ''inv-1'' = Inr (Some ''/u-1/scan.pdf'' # [])"
    by (simp add: short_text_processor_def demo_processor_def)
  have p: "''/u-1/scan.pdf'' \<noteq> []" by simp
  have g: "gemini_enabled short_text_processor = False"
    "update_invoice short_text_processor = (\<lambda>i d. None)"
    by (simp_all add: short_text_processor_def demo_processor_def)
  have n: "short_ocr_text \<noteq> []" by (simp add: short_ocr_text_def)
  have u: "build_update_data [(''vendor_name'', PyNone), (''invoice_number'', PyNone),
       (''invoice_date'', PyNone), (''total_amount'', PyFloat 5), (''currency'', PyStr ''USD'')] ''T1''
     = [(''status'', PyStr ''completed''), (''processed_at'', PyStr ''T1Z''),
          (''total_amount'', PyFloat 5), (''currency'', PyStr ''USD''),
          (''line_items'', PyList [])]"
    by (simp add: build_update_data_def update_keys_def update_keys2_def update_keys3_def
          dict_get_def dict_get_default_def)
  have "process_invoice_try short_text_processor ''inv-1'' ''u-1'' ''T1'' =
     ([SelectInvoice ''inv-1'', Download ''u-1/scan.pdf'', ReadPdfText ''%PDF-1.4'',
       ConvertFromPath ''%PDF-1.4'' 300, ImageToString 0, RegexFallback short_ocr_text,
       UpdateInvoice ''inv-1''
         [(''status'', PyStr ''completed''), (''processed_at'', PyStr ''T1Z''),
          (''total_amount'', PyFloat 5), (''currency'', PyStr ''USD''),
          (''line_items'', PyList [])]],
      Inr [(''success'', PyBool True), (''invoice_id'', PyStr ''inv-1''),
           (''extracted_data'',
            PyDict [(''vendor_name'', PyNone), (''invoice_number'', PyNone),
                    (''invoice_date'', PyNone), (''total_amount'', PyFloat 5),
                    (''currency'', PyStr ''USD'')]),
           (''text_length'', PyInt 11)])"
    by (simp add: try_after_text[OF s p d t] a n extract_invoice_data_def g
          extract_with_regex_eq short_fields u short_length Let_def)
  then show ?thesis using a b by (simp add: process_invoice_of_try short_ocr_text_def)
qed

text \<open>
  C7. \<open>_extract_with_gemini\<close> always returns a value. When the request to the model
  raises, it returns what \<open>_extract_with_regex\<close> returns on the same text. When the
  model answers, removing the code fence never raises; when \<open>json.loads\<close> raises on the
  cleaned answer the result is again that of \<open>_extract_with_regex\<close> on the same text,
  and when it succeeds the decoded value is returned and the regex extraction does not
  run. With Gemini enabled this is the structuring step.
\<close>

theorem gemini_failure_falls_back_to_regex:
  "(\<exists>ev v. extract_with_gemini self text = (ev, Inr v)) \<and>
   (\<forall>m. generate_content self (prompt_for text) = Inl m \<longrightarrow>
      extract_with_gemini self text =
        (case extract_with_regex text of
           (ev, r) \<Rightarrow> ([GenerateContent (prompt_for text)] @ ev, r))) \<and>
   (\<forall>response. generate_content self (prompt_for text) = Inr response \<longrightarrow>
      (\<exists>cleaned. strip_code_fence (strip response) = Inr cleaned \<and>
         (\<forall>m. json_loads self cleaned = Inl m \<longrightarrow>
            extract_with_gemini self text =
              (case extract_with_regex text of
                 (ev, r) \<Rightarrow> ([GenerateContent (prompt_for text), JsonLoads cleaned] @ ev, r))) \<and>
         (\<forall>v. json_loads self cleaned = Inr v \<longrightarrow>
            extract_with_gemini self text =
              ([GenerateContent (prompt_for text), JsonLoads cleaned], Inr v)))) \<and>
   (gemini_enabled self \<longrightarrow> extract_invoice_data self text = extract_with_gemini self text) \<and>
   extract_with_regex text = ([RegexFallback text] :: 'a event list, Inr (PyDict (regex_fields text)))"
proof (intro conjI allI impI)
  show "\<exists>ev v. extract_with_gemini self text = (ev, Inr v)"
    by (rule gemini_never_raises)
next
  fix m assume "generate_content self (prompt_for text) = Inl m"
  then show "extract_with_gemini self text =
        (case extract_with_regex text of
           (ev, r) \<Rightarrow> ([GenerateContent (prompt_for text)] @ ev, r))"
    by (simp add: gemini_cases extract_with_regex_eq)
next
  fix response assume g: "generate_content self (prompt_for text) = Inr response"
  obtain cleaned where c: "strip_code_fence (strip response) = Inr cleaned"
    using strip_code_fence_total by blast
  have "(\<forall>m. json_loads self cleaned = Inl m \<longrightarrow>
            extract_with_gemini self text =
              (case extract_with_regex text of
                 (ev, r) \<Rightarrow> ([GenerateContent (prompt_for text), JsonLoads cleaned] @ ev, r))) \<and>
         (\<forall>v. json_loads self cleaned = Inr v \<longrightarrow>
            extract_with_gemini self text =
              ([GenerateContent (prompt_for text), JsonLoads cleaned], Inr v))"
    using g c by (simp add: gemini_cases extract_with_regex_eq)
  with c show "\<exists>cleaned. strip_code_fence (strip response) = Inr cleaned \<and>
         (\<forall>m. json_loads self cleaned = Inl m \<longrightarrow>
            extract_with_gemini self text =
              (case extract_with_regex text of
                 (ev, r) \<Rightarrow> ([GenerateContent (prompt_for text), JsonLoads cleaned] @ ev, r))) \<and>
         (\<forall>v. json_loads self cleaned = Inr v \<longrightarrow>
            extract_with_gemini self text =
              ([GenerateContent (prompt_for text), JsonLoads cleaned], Inr v))"
    by blast
next
  assume "gemini_enabled self"
  then show "extract_invoice_data self text = extract_with_gemini self text"
    by (simp add: extract_invoice_data_def)
next
  show "extract_with_regex text = ([RegexFallback text] :: 'a event list, Inr (PyDict (regex_fields text)))"
    by (rule extract_with_regex_eq)
qed

text \<open>
  The theorem at an answer in a code fence that is not valid JSON, and at a request
  that is refused: both give the regex record of the text.
\<close>

theorem gemini_failure_falls_back_to_regex_witness:
  "gemini_enabled broken_json_processor \<and>
   generate_content broken_json_processor (prompt_for scenario_text) = Inr fenced_response \<and>
   json_loads broken_json_processor (''{'' @ quoted ''vendor_name'' @ '':'') = Inl ''Expecting value'' \<and>
   extract_invoice_data broken_json_processor scenario_text =
     ([GenerateContent (prompt_for scenario_text), JsonLoads (''{'' @ quoted ''vendor_name'' @ '':''),
       RegexFallback scenario_text],
      Inr (PyDict scenario_fields)) \<and>
   generate_content demo_processor (prompt_for scenario_text) = Inl ''API key not valid'' \<and>
   extract_with_gemini demo_processor scenario_text =
     ([GenerateContent (prompt_for scenario_text), RegexFallback scenario_text],
      Inr (PyDict scenario_fields))"
proof -
  let ?c = "''{'' @ quoted ''vendor_name'' @ '':''"
  note t = gemini_failure_falls_back_to_regex[of broken_json_processor scenario_text]
  have e: "gemini_enabled broken_json_processor"
    by (simp add: broken_json_processor_def)
  have g: "generate_content broken_json_processor (prompt_for scenario_text) = Inr fenced_response"
    by (simp add: broken_json_processor_def)
  have j: "json_loads broken_json_processor ?c = Inl ''Expecting value''"
    by (simp add: broken_json_processor_def)
  have r: "extract_with_regex scenario_text
             = ([RegexFallback scenario_text] :: nat event list, Inr (PyDict scenario_fields))"
    by (simp add: extract_with_regex_eq scenario_regex_fields)
  from t[THEN conjunct2, THEN conjunct2, THEN conjunct1, rule_format, OF g]
  obtain cleaned where c: "strip_code_fence (strip fenced_response) = Inr cleaned"
    and f: "\<forall>m. json_loads broken_json_processor cleaned = Inl m \<longrightarrow>
            extract_with_gemini broken_json_processor scenario_text =
              (case extract_with_regex scenario_text of
                 (ev, r) \<Rightarrow> ([GenerateContent (prompt_for scenario_text), JsonLoads cleaned] @ ev, r))"
    by blast
  from c have cl: "cleaned = ?c" by (simp add: fenced_response_cleaned)
  from f[rule_format, of "''Expecting value''"] j
  have a: "extract_with_gemini broken_json_processor scenario_text =
     ([GenerateContent (prompt_for scenario_text), JsonLoads ?c, RegexFallback scenario_text],
      Inr (PyDict scenario_fields))"
    unfolding cl r by simp
  from t[THEN conjunct2, THEN conjunct2, THEN conjunct2, THEN conjunct1, rule_format, OF e] a
  have b: "extract_invoice_data broken_json_processor scenario_text =
     ([GenerateContent (prompt_for scenario_text), JsonLoads ?c, RegexFallback scenario_text],
      Inr (PyDict scenario_fields))"
    by simp
  have g2: "generate_content demo_processor (prompt_for scenario_text) = Inl ''API key not valid''"
    by (simp add: demo_processor_def)
  from gemini_failure_falls_back_to_regex[of demo_processor scenario_text,
         THEN conjunct2, THEN conjunct1, rule_format, OF g2]
  have d: "extract_with_gemini demo_processor scenario_text =
     ([GenerateContent (prompt_for scenario_text), RegexFallback scenario_text],
      Inr (PyDict scenario_fields))"
    unfolding r by simp
  from e g j b g2 d show ?thesis by blast
qed

text \<open>
  C8. On \<open>Invoice #1001 Total: $250.00\<close> the regex extraction gives
  \<open>invoice_number = '1001'\<close>, \<open>total_amount = 250.0\<close> and \<open>currency = 'USD'\<close>, and with
  Gemini disabled this is what the structuring step returns. On every text the
  extraction returns a dictionary with the same five keys, \<open>vendor_name\<close> \<open>None\<close> and
  \<open>currency\<close> \<open>'USD'\<close>; each of the three searched fields holds the group of the first
  pattern of its list that matches, and \<open>None\<close> when none does (for the amount also
  when the matched group is not a number).
\<close>

theorem regex_fallback_scenario:
  "regex_fields scenario_text = scenario_fields \<and>
   (\<not> gemini_enabled self \<longrightarrow>
      extract_invoice_data self scenario_text =
        ([RegexFallback scenario_text], Inr (PyDict scenario_fields))) \<and>
   (\<forall>text. (\<not> gemini_enabled self \<longrightarrow>
              extract_invoice_data self text = ([RegexFallback text], Inr (PyDict (regex_fields text)))) \<and>
           map fst (regex_fields text) =
             [''vendor_name'', ''invoice_number'', ''invoice_date'', ''total_amount'', ''currency''] \<and>
           dict_get (regex_fields text) ''vendor_name'' = PyNone \<and>
           dict_get (regex_fields text) ''currency'' = PyStr ''USD'' \<and>
           dict_get (regex_fields text) ''invoice_number'' =
             (case first_match invoice_patterns text of None \<Rightarrow> PyNone | Some g \<Rightarrow> PyStr g) \<and>
           dict_get (regex_fields text) ''invoice_date'' =
             (case first_match date_patterns text of None \<Rightarrow> PyNone | Some g \<Rightarrow> PyStr g) \<and>
           dict_get (regex_fields text) ''total_amount'' =
             (case first_match amount_patterns text of
                None \<Rightarrow> PyNone
              | Some g \<Rightarrow> (case py_float (replace_comma g) of None \<Rightarrow> PyNone | Some x \<Rightarrow> PyFloat x)) \<and>
           (\<forall>pre p post g.
              (\<forall>q \<in> set pre. search_group1 q text = None) \<and> search_group1 p text = Some g \<longrightarrow>
              first_match (pre @ p # post) text = Some g) \<and>
           (\<forall>ps. (\<forall>q \<in> set ps. search_group1 q text = None) \<longrightarrow> first_match ps text = None))"
proof -
  have a: "\<not> gemini_enabled self \<longrightarrow>
      extract_invoice_data self scenario_text =
        ([RegexFallback scenario_text], Inr (PyDict scenario_fields))"
    by (simp add: extract_invoice_data_def extract_with_regex_eq scenario_regex_fields)
  have b: "\<not> gemini_enabled self \<longrightarrow>
              extract_invoice_data self tx = ([RegexFallback tx], Inr (PyDict (regex_fields tx)))"
    for tx
    by (simp add: extract_invoice_data_def extract_with_regex_eq)
  have c: "\<forall>pre p post g.
              (\<forall>q \<in> set pre. search_group1 q tx = None) \<and> search_group1 p tx = Some g \<longrightarrow>
              first_match (pre @ p # post) tx = Some g" for tx
    using first_match_first by blast
  have d: "\<forall>ps. (\<forall>q \<in> set ps. search_group1 q tx = None) \<longrightarrow> first_match ps tx = None"
    for tx
    using first_match_none by blast
  show ?thesis
    using scenario_regex_fields a b c d regex_fields_keys regex_fields_get
    by (intro conjI allI) blast+
qed

text \<open>
  The theorem at the processor of the scenario, and at a text whose invoice number and
  amount are found by a later pattern of the list and whose date is not found.
\<close>

theorem regex_fallback_scenario_witness:
  "\<not> gemini_enabled demo_processor \<and>
   extract_invoice_data demo_processor scenario_text =
     ([RegexFallback scenario_text],
      Inr (PyDict [(''vendor_name'', PyNone), (''invoice_number'', PyStr ''1001''),
                   (''invoice_date'', PyNone), (''total_amount'', PyFloat 250),
                   (''currency'', PyStr ''USD'')])) \<and>
   search_group1 (invoice_patterns ! 0) second_text = None \<and>
   search_group1 (invoice_patterns ! 1) second_text = None \<and>
   search_group1 (invoice_patterns ! 2) second_text = Some ''77'' \<and>
   dict_get (regex_fields second_text) ''invoice_number'' = PyStr ''77'' \<and>
   dict_get (regex_fields second_text) ''invoice_date'' = PyNone \<and>
   dict_get (regex_fields second_text) ''total_amount'' = PyFloat (2401 / 2)"
proof -
  note t = regex_fallback_scenario[of demo_processor]
  have e: "\<not> gemini_enabled demo_processor" by (simp add: demo_processor_def)
  from t[THEN conjunct2, THEN conjunct1, rule_format, OF e]
  have a: "extract_invoice_data demo_processor scenario_text =
     ([RegexFallback scenario_text],
      Inr (PyDict [(''vendor_name'', PyNone), (''invoice_number'', PyStr ''1001''),
                   (''invoice_date'', PyNone), (''total_amount'', PyFloat 250),
                   (''currency'', PyStr ''USD'')]))"
    by (simp add: scenario_fields_def)
  note s = t[THEN conjunct2, THEN conjunct2, rule_format, of second_text]
  have hi: "(\<forall>q \<in> set [invoice_patterns ! 0, invoice_patterns ! 1]. search_group1 q second_text = None) \<and>
            search_group1 (invoice_patterns ! 2) second_text = Some ''77''"
    using second_invoice by simp
  have "first_match ([invoice_patterns ! 0, invoice_patterns ! 1] @ invoice_patterns ! 2 # []) second_text
          = Some ''77''"
    using s hi by blast
  then have fi: "first_match invoice_patterns second_text = Some ''77''"
    by (subst patterns_nth(1))
  have hd: "\<forall>q \<in> set [date_patterns ! 0, date_patterns ! 1, date_patterns ! 2].
               search_group1 q second_text = None"
    using second_date by simp
  have "first_match [date_patterns ! 0, date_patterns ! 1, date_patterns ! 2] second_text = None"
    using s hd by blast
  then have fd: "first_match date_patterns second_text = None"
    by (subst patterns_nth(2))
  have ha: "(\<forall>q \<in> set [amount_patterns ! 0]. search_group1 q second_text = None) \<and>
            search_group1 (amount_patterns ! 1) second_text = Some ''1,200.50''"
    using second_amount by simp
  have "first_match ([amount_patterns ! 0] @ amount_patterns ! 1 # [amount_patterns ! 2]) second_text
          = Some ''1,200.50''"
    using s ha by blast
  then have fa: "first_match amount_patterns second_text = Some ''1,200.50''"
    by (subst patterns_nth(3))
  have b: "dict_get (regex_fields second_text) ''invoice_number'' = PyStr ''77''"
    using s fi by simp
  have c: "dict_get (regex_fields second_text) ''invoice_date'' = PyNone"
    using s fd by simp
  have d: "dict_get (regex_fields second_text) ''total_amount'' = PyFloat (2401 / 2)"
    using s fa second_float by simp
  from e a second_invoice b c d show ?thesis by blast
qed

text \<open>
  C9. \<open>_extract_text_from_file\<close> compares the lower-cased suffix of the path. When it
  is none of \<open>.pdf\<close>, \<open>.png\<close>, \<open>.jpg\<close>, \<open>.jpeg\<close>, \<open>.tiff\<close>, \<open>.bmp\<close> the method raises
  \<open>Unsupported file type\<close> before any call to a reader or to OCR, and
  \<open>process_invoice\<close> stops there, after the download. When it is one of them, the
  reader of that branch is called and the method does not raise that error.
\<close>

theorem unsupported_extension_rejected:
  "(lower (path_suffix self file_path) \<notin> {''.pdf'', ''.png'', ''.jpg'', ''.jpeg'', ''.tiff'', ''.bmp''} \<longrightarrow>
      extract_text_from_file self file_bytes file_path =
        ([], Inl (UnsupportedFileType (lower (path_suffix self file_path)))) \<and>
      (\<forall>invoice_id others ev1 user_id now.
         select_invoice self invoice_id = Inr (Some file_path # others) \<and> file_path \<noteq> [] \<and>
         download_file_from_storage self file_path = (ev1, Inr file_bytes) \<longrightarrow>
         process_invoice_try self invoice_id user_id now =
           (SelectInvoice invoice_id # ev1,
            Inl (UnsupportedFileType (lower (path_suffix self file_path)))))) \<and>
   (lower (path_suffix self file_path) \<in> {''.pdf'', ''.png'', ''.jpg'', ''.jpeg'', ''.tiff'', ''.bmp''} \<longrightarrow>
      (\<forall>x. snd (extract_text_from_file self file_bytes file_path) \<noteq> Inl (UnsupportedFileType x)) \<and>
      fst (extract_text_from_file self file_bytes file_path) \<noteq> []) \<and>
   error_str (UnsupportedFileType (lower (path_suffix self file_path))) =
     ''Unsupported file type: '' @ lower (path_suffix self file_path)"
proof -
  have s: "set (''.pdf'' # image_extensions) = {''.pdf'', ''.png'', ''.jpg'', ''.jpeg'', ''.tiff'', ''.bmp''}"
    by (simp add: image_extensions_def)
  show ?thesis
    unfolding s[symmetric]
    using file_unsupported[of self file_path file_bytes] try_unsupported[of self _ file_path _ _ file_bytes]
      file_supported[of self file_path file_bytes]
    by (auto simp: error_str_def)
qed

text \<open>
  The theorem at the suffix \<open>.DOCX\<close>, rejected as \<open>.docx\<close>, and at \<open>.pdf\<close>.
\<close>

theorem unsupported_extension_rejected_witness:
  "lower (path_suffix docx_processor ''/u-1/scan.pdf'') = ''.docx'' \<and>
   extract_text_from_file docx_processor ''%PDF-1.4'' ''/u-1/scan.pdf'' =
     ([], Inl (UnsupportedFileType ''.docx'')) \<and>
   process_invoice_try docx_processor ''inv-1'' ''u-1'' ''T1'' =
     ([SelectInvoice ''inv-1'', Download ''u-1/scan.pdf''], Inl (UnsupportedFileType ''.docx'')) \<and>
   lower (path_suffix demo_processor ''/u-1/scan.pdf'') = ''.pdf'' \<and>
   snd (extract_text_from_file demo_processor ''%PDF-1.4'' ''/u-1/scan.pdf'')
     \<noteq> Inl (UnsupportedFileType ''.pdf'') \<and>
   fst (extract_text_from_file demo_processor ''%PDF-1.4'' ''/u-1/scan.pdf'') \<noteq> []"
proof -
  have x: "lower (path_suffix docx_processor ''/u-1/scan.pdf'') = ''.docx''"
    by code_simp
  have n: "lower (path_suffix docx_processor ''/u-1/scan.pdf'')
             \<notin> {''.pdf'', ''.png'', ''.jpg'', ''.jpeg'', ''.tiff'', ''.bmp''}"
    unfolding x by simp
  note t = unsupported_extension_rejected[of docx_processor "''/u-1/scan.pdf''" "''%PDF-1.4''",
             THEN conjunct1, rule_format, OF n]
  from t[THEN conjunct1]
  have a: "extract_text_from_file docx_processor ''%PDF-1.4'' ''/u-1/scan.pdf'' =
     ([], Inl (UnsupportedFileType ''.docx''))"
    unfolding x .
  have h: "select_invoice docx_processor ''inv-1'' = Inr (Some ''/u-1/scan.pdf'' # []) \<and>
           ''/u-1/scan.pdf'' \<noteq> [] \<and>
           download_file_from_storage docx_processor ''/u-1/scan.pdf''
             = ([Download ''u-1/scan.pdf''], Inr ''%PDF-1.4'')"
    by (simp add: docx_processor_def demo_processor_def download_file_from_storage_def
          lstrip_slash_def Let_def)
  from t[THEN conjunct2, rule_format, OF h, of "''u-1''" "''T1''"]
  have b: "process_invoice_try docx_processor ''inv-1'' ''u-1'' ''T1'' =
     ([SelectInvoice ''inv-1'', Download ''u-1/scan.pdf''], Inl (UnsupportedFileType ''.docx''))"
    unfolding x .
  have y: "lower (path_suffix demo_processor ''/u-1/scan.pdf'') = ''.pdf''"
    by (simp add: demo_processor_def lower_def lower_char_def)
  have m: "lower (path_suffix demo_processor ''/u-1/scan.pdf'')
             \<in> {''.pdf'', ''.png'', ''.jpg'', ''.jpeg'', ''.tiff'', ''.bmp''}"
    unfolding y by simp
  note u = unsupported_extension_rejected[of demo_processor "''/u-1/scan.pdf''" "''%PDF-1.4''",
             THEN conjunct2, THEN conjunct1, rule_format, OF m]
  from u[THEN conjunct1, rule_format, of "''.pdf''"]
  have c: "snd (extract_text_from_file demo_processor ''%PDF-1.4'' ''/u-1/scan.pdf'')
     \<noteq> Inl (UnsupportedFileType ''.pdf'')" .
  from u[THEN conjunct2]
  have d: "fst (extract_text_from_file demo_processor ''%PDF-1.4'' ''/u-1/scan.pdf'') \<noteq> []" .
  from x a b y c d show ?thesis by blast
qed

end
